theory Spec2Isabelle
  imports Complex_Main "HOL-Library.Word"
begin

section \<open>JavaScript strings\<close>

text \<open>
  A JavaScript string is a sequence of UTF-16 code units. Literals of the source are
  written with \<open>str\<close>, which embeds an ASCII literal code unit by code unit.
\<close>

type_synonym jchar = "16 word"
type_synonym jstring = "jchar list"

definition str :: "string \<Rightarrow> jstring" where
  "str s = map of_char s"

text \<open>
  The characters that \<^verbatim>\<open>String.prototype.trim\<close> strips and that \<^verbatim>\<open>\s\<close> matches in a
  regular expression: ECMAScript's WhiteSpace and LineTerminator code points.
\<close>

definition is_ws :: "jchar \<Rightarrow> bool" where
  "is_ws c = (c \<in> {0x9, 0xA, 0xB, 0xC, 0xD, 0x20, 0xA0, 0x1680, 0x2028, 0x2029,
                    0x202F, 0x205F, 0x3000, 0xFEFF}
              \<or> (0x2000 \<le> c \<and> c \<le> 0x200A))"

definition trim :: "jstring \<Rightarrow> jstring" where
  "trim s = rev (dropWhile is_ws (rev (dropWhile is_ws s)))"

text \<open>\<^verbatim>\<open>s.slice(0, n)\<close>: a negative \<open>n\<close> counts from the end of the string.\<close>

definition slice0 :: "jstring \<Rightarrow> int \<Rightarrow> jstring" where
  "slice0 s n = (if n < 0 then take (nat (int (length s) + n)) s else take (nat n) s)"

text \<open>
  \<^verbatim>\<open>s.split(re)\<close> for a regular expression that matches exactly one character of the
  class \<open>P\<close> (as \<^verbatim>\<open>/,|\n/\<close> does): every separator character ends a piece.
\<close>

fun split_on :: "(jchar \<Rightarrow> bool) \<Rightarrow> jstring \<Rightarrow> jstring list" where
  "split_on P [] = [[]]"
| "split_on P (c # cs) =
     (if P c then [] # split_on P cs
      else (case split_on P cs of
              [] \<Rightarrow> [[c]]
            | w # ws \<Rightarrow> (c # w) # ws))"

text \<open>
  \<^verbatim>\<open>s.split(re)\<close> for a regular expression \<^verbatim>\<open>[...]+\<close> that matches a maximal run of
  characters of the class \<open>P\<close>: every run of separators ends a piece.
\<close>

function split_runs :: "(jchar \<Rightarrow> bool) \<Rightarrow> jstring \<Rightarrow> jstring list" where
  "split_runs P s =
     (let w = takeWhile (\<lambda>c. \<not> P c) s; r = dropWhile (\<lambda>c. \<not> P c) s
      in if r = [] then [w] else w # split_runs P (dropWhile P r))"
  by pat_completeness auto
termination
proof (relation "measure (\<lambda>(P, s). length s)")
  show "wf (measure (\<lambda>(P, s). length s))" by simp
next
  fix P :: "jchar \<Rightarrow> bool" and s w r :: jstring
  assume r: "r = dropWhile (\<lambda>c. \<not> P c) s" and ne: "r \<noteq> []"
  from ne obtain c cs where rc: "r = c # cs" by (cases r) auto
  have "P c" using r rc by (metis dropWhile_eq_Cons_conv)
  hence "length (dropWhile P r) < length r" using rc
    by (simp add: le_imp_less_Suc length_dropWhile_le)
  moreover have "length r \<le> length s" using r by (simp add: length_dropWhile_le)
  ultimately show "((P, dropWhile P r), (P, s)) \<in> measure (\<lambda>(P, s). length s)" by simp
qed

section \<open>JavaScript values\<close>

text \<open>
  The values that \<^verbatim>\<open>JSON.parse\<close> and the object literals of the source produce. A number
  is carried by its rendering \<^verbatim>\<open>String(n)\<close>, which is all the code below asks of a
  number besides its truthiness. An object is the list of its own properties.
\<close>

datatype jsval =
    JUndefined
  | JNull
  | JBool bool
  | JNum jstring
  | JStr jstring
  | JArr "jsval list"
  | JObj "(jstring \<times> jsval) list"

datatype js_error = TypeError | ServiceError | AIParseFailed

text \<open>Truthiness: what \<^verbatim>\<open>||\<close>, \<^verbatim>\<open>!\<close> and \<^verbatim>\<open>if\<close> test.\<close>

fun truthy :: "jsval \<Rightarrow> bool" where
  "truthy JUndefined = False"
| "truthy JNull = False"
| "truthy (JBool b) = b"
| "truthy (JNum s) = (s \<noteq> str ''0'' \<and> s \<noteq> str ''NaN'')"
| "truthy (JStr s) = (s \<noteq> [])"
| "truthy (JArr xs) = True"
| "truthy (JObj kvs) = True"

definition js_or :: "jsval \<Rightarrow> jsval \<Rightarrow> jsval" where
  "js_or a b = (if truthy a then a else b)"

text \<open>
  Reading a property \<open>k\<close> that no built-in prototype defines (all property names read by
  the code below are of that kind): the own property of an object, \<^verbatim>\<open>undefined\<close> on
  every other value that is not \<^verbatim>\<open>null\<close> or \<^verbatim>\<open>undefined\<close>. The code never reads a
  property of \<^verbatim>\<open>null\<close> or \<^verbatim>\<open>undefined\<close>: each receiver is guarded by \<^verbatim>\<open>|| {}\<close>.
\<close>

fun get :: "jsval \<Rightarrow> string \<Rightarrow> jsval" where
  "get (JObj kvs) k = (case map_of kvs (str k) of None \<Rightarrow> JUndefined | Some v \<Rightarrow> v)"
| "get _ k = JUndefined"

text \<open>
  \<^verbatim>\<open>String(v)\<close>. An array is joined with commas, \<^verbatim>\<open>null\<close> and \<^verbatim>\<open>undefined\<close> elements
  rendering as the empty string. An object without an own \<^verbatim>\<open>toString\<close> property renders
  through \<^verbatim>\<open>Object.prototype.toString\<close>; an own \<^verbatim>\<open>toString\<close> property holding a value
  (never a function here) leaves no callable conversion that returns a primitive, and the
  conversion raises a TypeError.
\<close>

fun String_js :: "jsval \<Rightarrow> js_error + jstring"
  and join_js :: "jsval list \<Rightarrow> js_error + jstring" where
  "String_js JUndefined = Inr (str ''undefined'')"
| "String_js JNull = Inr (str ''null'')"
| "String_js (JBool b) = Inr (if b then str ''true'' else str ''false'')"
| "String_js (JNum s) = Inr s"
| "String_js (JStr s) = Inr s"
| "String_js (JArr xs) = join_js xs"
| "String_js (JObj kvs) =
     (if map_of kvs (str ''toString'') = None then Inr (str ''[object Object]'')
      else Inl TypeError)"
| "join_js [] = Inr []"
| "join_js (x # xs) =
     (case (if x = JNull \<or> x = JUndefined then Inr [] else String_js x) of
        Inl e \<Rightarrow> Inl e
      | Inr a \<Rightarrow>
          (case xs of
             [] \<Rightarrow> Inr a
           | _ # _ \<Rightarrow> (case join_js xs of Inl e \<Rightarrow> Inl e | Inr b \<Rightarrow> Inr (a @ str '','' @ b))))"

text \<open>\<^verbatim>\<open>xs.map(f)\<close> for an \<open>f\<close> that may raise: the first exception ends the loop.\<close>

fun map_js :: "('a \<Rightarrow> js_error + 'b) \<Rightarrow> 'a list \<Rightarrow> js_error + 'b list" where
  "map_js f [] = Inr []"
| "map_js f (x # xs) =
     (case f x of
        Inl e \<Rightarrow> Inl e
      | Inr y \<Rightarrow> (case map_js f xs of Inl e \<Rightarrow> Inl e | Inr ys \<Rightarrow> Inr (y # ys)))"

section \<open>The canonical profile\<close>

record contact_info =
  name :: jsval
  email :: jsval
  phone :: jsval
  location :: jsval

record experience_entry =
  title :: jsval
  company :: jsval
  start_date :: jsval
  end_date :: jsval
  responsibilities :: "jstring list"

record profile =
  skills :: "jstring list"
  contact :: contact_info
  summary :: jsval
  experience :: "experience_entry list"
  education :: "jsval list"
  certifications :: "jstring list"
  languages :: "jstring list"
  links :: "jstring list"

text \<open>The objects that the literals of \<^verbatim>\<open>normalizeExperience\<close> and \<^verbatim>\<open>normalizeParsed\<close> build.\<close>

definition experience_json :: "experience_entry \<Rightarrow> jsval" where
  "experience_json e = JObj
     [(str ''title'', title e),
      (str ''company'', company e),
      (str ''start_date'', start_date e),
      (str ''end_date'', end_date e),
      (str ''responsibilities'', JArr (map JStr (responsibilities e)))]"

definition contact_json :: "contact_info \<Rightarrow> jsval" where
  "contact_json c = JObj
     [(str ''name'', name c),
      (str ''email'', email c),
      (str ''phone'', phone c),
      (str ''location'', location c)]"

definition profile_json :: "profile \<Rightarrow> jsval" where
  "profile_json p = JObj
     [(str ''skills'', JArr (map JStr (skills p))),
      (str ''contact'', contact_json (contact p)),
      (str ''summary'', summary p),
      (str ''experience'', JArr (map experience_json (experience p))),
      (str ''education'', JArr (education p)),
      (str ''certifications'', JArr (map JStr (certifications p))),
      (str ''languages'', JArr (map JStr (languages p))),
      (str ''links'', JArr (map JStr (links p)))]"


section \<open>Schema normalizer\<close>

definition normalizeSkills :: "jsval \<Rightarrow> js_error + jstring list" where
  "normalizeSkills raw =
     (case raw of
        JArr xs \<Rightarrow>
          (case map_js (\<lambda>s. case String_js s of Inl e \<Rightarrow> Inl e | Inr t \<Rightarrow> Inr (trim t)) xs of
             Inl e \<Rightarrow> Inl e
           | Inr ts \<Rightarrow> Inr (filter (\<lambda>t. t \<noteq> []) ts))
      | JStr s \<Rightarrow>
          Inr (filter (\<lambda>t. t \<noteq> []) (map trim (split_on (\<lambda>c. c = 0x2C \<or> c = 0xA) s)))
      | _ \<Rightarrow> Inr [])"

definition normalizeExperienceItem :: "jsval \<Rightarrow> js_error + experience_entry" where
  "normalizeExperienceItem item =
     (let obj = js_or item (JObj []) in
      case normalizeSkills
             (js_or (get obj ''responsibilities'') (js_or (get obj ''responsibility'') (JArr []))) of
        Inl e \<Rightarrow> Inl e
      | Inr rs \<Rightarrow> Inr
          \<lparr>title = js_or (get obj ''title'') (js_or (get obj ''role'') (JStr [])),
           company = js_or (get obj ''company'') (js_or (get obj ''organization'') (JStr [])),
           start_date = js_or (get obj ''start_date'')
                          (js_or (get obj ''startDate'') (js_or (get obj ''from'') (JStr []))),
           end_date = js_or (get obj ''end_date'')
                        (js_or (get obj ''endDate'') (js_or (get obj ''to'') (JStr []))),
           responsibilities = rs\<rparr>)"

definition normalizeExperience :: "jsval \<Rightarrow> js_error + experience_entry list" where
  "normalizeExperience raw =
     (case raw of JArr xs \<Rightarrow> map_js normalizeExperienceItem xs | _ \<Rightarrow> Inr [])"

subsection \<open>The two regular expressions of the contact fallback\<close>

definition is_digit :: "jchar \<Rightarrow> bool" where
  "is_digit c = (0x30 \<le> c \<and> c \<le> 0x39)"

definition is_alpha :: "jchar \<Rightarrow> bool" where
  "is_alpha c = ((0x41 \<le> c \<and> c \<le> 0x5A) \<or> (0x61 \<le> c \<and> c \<le> 0x7A))"

text \<open>
  \<^verbatim>\<open>/[A-Z0-9._%+-]+@[A-Z0-9.-]+\.[A-Z]{2,}/i\<close>. Without the \<^verbatim>\<open>u\<close> flag, the \<^verbatim>\<open>i\<close> flag
  lets \<^verbatim>\<open>[A-Z]\<close> match the ASCII letters of both cases and nothing else.
\<close>

definition email_local :: "jchar \<Rightarrow> bool" where
  "email_local c = (is_alpha c \<or> is_digit c \<or> c \<in> {0x2E, 0x5F, 0x25, 0x2B, 0x2D})"

definition email_domain :: "jchar \<Rightarrow> bool" where
  "email_domain c = (is_alpha c \<or> is_digit c \<or> c \<in> {0x2E, 0x2D})"

text \<open>
  \<^verbatim>\<open>[A-Z0-9.-]+\.[A-Z]{2,}\<close> at the start of \<open>d\<close>: the greedy class takes the longest run
  and gives characters back until a dot followed by two letters or more comes next.
\<close>

definition domain_at :: "jstring \<Rightarrow> jstring option" where
  "domain_at d =
     (let n = length (takeWhile email_domain d) in
      case find (\<lambda>k. d ! k = 0x2E \<and> 2 \<le> length (takeWhile is_alpha (drop (Suc k) d)))
             (rev [1..<n]) of
        None \<Rightarrow> None
      | Some k \<Rightarrow> Some (take (Suc k) d @ takeWhile is_alpha (drop (Suc k) d)))"

definition email_at :: "jstring \<Rightarrow> jstring option" where
  "email_at s =
     (let l = takeWhile email_local s in
      if l = [] then None
      else (case drop (length l) s of
              [] \<Rightarrow> None
            | c # d \<Rightarrow>
                if c = 0x40
                then (case domain_at d of None \<Rightarrow> None | Some m \<Rightarrow> Some (l @ c # m))
                else None))"

text \<open>\<^verbatim>\<open>/(\+?\d[\d\s\-\(\)]{7,}\d)/\<close>.\<close>

definition phone_class :: "jchar \<Rightarrow> bool" where
  "phone_class c = (is_digit c \<or> is_ws c \<or> c \<in> {0x2D, 0x28, 0x29})"

definition phone_core :: "jstring \<Rightarrow> jstring option" where
  "phone_core s =
     (case s of
        [] \<Rightarrow> None
      | d0 # r \<Rightarrow>
          if \<not> is_digit d0 then None
          else (let n = length (takeWhile phone_class r) in
                case find (\<lambda>k. is_digit (r ! k)) (rev [7..<n]) of
                  None \<Rightarrow> None
                | Some k \<Rightarrow> Some (d0 # take (Suc k) r)))"

definition phone_at :: "jstring \<Rightarrow> jstring option" where
  "phone_at s =
     (case s of
        [] \<Rightarrow> None
      | c # t \<Rightarrow>
          if c = 0x2B
          then (case phone_core t of Some m \<Rightarrow> Some (c # m) | None \<Rightarrow> phone_core s)
          else phone_core s)"

text \<open>The leftmost match: the matcher is tried at every position in turn.\<close>

fun first_match :: "(jstring \<Rightarrow> jstring option) \<Rightarrow> jstring \<Rightarrow> jstring option" where
  "first_match m [] = m []"
| "first_match m (c # cs) =
     (case m (c # cs) of Some r \<Rightarrow> Some r | None \<Rightarrow> first_match m cs)"

text \<open>\<^verbatim>\<open>(text.match(re) || [null])[0]\<close>\<close>

definition match0 :: "(jstring \<Rightarrow> jstring option) \<Rightarrow> jstring \<Rightarrow> jsval" where
  "match0 m text = (case first_match m text of None \<Rightarrow> JNull | Some r \<Rightarrow> JStr r)"

subsection \<open>normalizeParsed\<close>

definition normalizeParsed :: "jsval \<Rightarrow> jstring \<Rightarrow> js_error + profile" where
  "normalizeParsed parsed resumeText =
     (let safe = js_or parsed (JObj []);
          contact = js_or (get safe ''contact'') (JObj []);
          email = js_or (get safe ''email'')
                    (js_or (get contact ''email'') (match0 email_at resumeText));
          phone = js_or (get safe ''phone'')
                    (js_or (get contact ''phone'') (match0 phone_at resumeText))
      in
      case normalizeSkills (get safe ''skills'') of Inl e \<Rightarrow> Inl e | Inr sk \<Rightarrow>
      case normalizeExperience (get safe ''experience'') of Inl e \<Rightarrow> Inl e | Inr ex \<Rightarrow>
      case normalizeSkills (get safe ''certifications'') of Inl e \<Rightarrow> Inl e | Inr ce \<Rightarrow>
      case normalizeSkills (get safe ''languages'') of Inl e \<Rightarrow> Inl e | Inr la \<Rightarrow>
      case normalizeSkills (get safe ''links'') of Inl e \<Rightarrow> Inl e | Inr li \<Rightarrow>
      Inr \<lparr>skills = sk,
           contact =
             \<lparr>name = js_or (get contact ''name'') (js_or (get safe ''name'') JNull),
              email = js_or email JNull,
              phone = js_or phone JNull,
              location = js_or (get contact ''location'') (js_or (get safe ''location'') JNull)\<rparr>,
           summary = js_or (get safe ''summary'') (JStr []),
           experience = ex,
           education = (case get safe ''education'' of JArr xs \<Rightarrow> xs | _ \<Rightarrow> []),
           certifications = ce,
           languages = la,
           links = li\<rparr>)"

section \<open>Heuristic profile builder\<close>

text \<open>
  \<^verbatim>\<open>w.toLowerCase()\<close> on the strings it is applied to here: every candidate has been
  stripped of all characters but ASCII letters, digits and \<^verbatim>\<open>+ # . -\<close>.
\<close>

definition toLowerCase :: "jstring \<Rightarrow> jstring" where
  "toLowerCase w = map (\<lambda>c. if 0x41 \<le> c \<and> c \<le> 0x5A then c + 0x20 else c) w"

definition heuristic_separator :: "jchar \<Rightarrow> bool" where
  "heuristic_separator c = (is_ws c \<or> c \<in> {0x2C, 0x3B, 0x2F, 0xA})"

definition heuristic_keep :: "jchar \<Rightarrow> bool" where
  "heuristic_keep c = (is_alpha c \<or> is_digit c \<or> c \<in> {0x2B, 0x23, 0x2E, 0x2D})"

definition commonStop :: "jstring set" where
  "commonStop = set (map str [''and'', ''or'', ''the'', ''a'', ''an'', ''to'', ''in'', ''of'',
                              ''for'', ''on'', ''with'', ''at'', ''by'', ''from''])"

text \<open>The \<^verbatim>\<open>for (const w of candidates)\<close> loop; \<open>acc\<close> is the array \<^verbatim>\<open>skills\<close> built so far.\<close>

fun collect_skills :: "jstring list \<Rightarrow> jstring list \<Rightarrow> jstring set \<Rightarrow> jstring list" where
  "collect_skills [] acc seen = acc"
| "collect_skills (w # ws) acc seen =
     (let key = toLowerCase w in
      if key \<in> commonStop then collect_skills ws acc seen
      else if key \<in> seen then collect_skills ws acc seen
      else if 50 \<le> length (acc @ [w]) then acc @ [w]
      else collect_skills ws (acc @ [w]) (insert key seen))"

definition extractSkillsHeuristic :: "jstring \<Rightarrow> jstring list" where
  "extractSkillsHeuristic resumeText =
     (if resumeText = [] then []
      else (let candidates =
                  filter (\<lambda>w. 1 < length w \<and> length w < 40)
                    (map (filter heuristic_keep) (split_runs heuristic_separator resumeText))
            in collect_skills candidates [] {}))"

definition heuristic_summary :: jstring where
  "heuristic_summary = str ''Parsed resume text without AI (heuristic fallback)''"

definition heuristicParsed :: "jstring \<Rightarrow> js_error + profile" where
  "heuristicParsed resumeText =
     (let skillsHeuristic = extractSkillsHeuristic resumeText in
      normalizeParsed
        (JObj [(str ''skills'', JArr (map JStr skillsHeuristic)),
               (str ''contact'', JObj []),
               (str ''summary'', JStr heuristic_summary),
               (str ''experience'', JArr [])])
        resumeText)"

section \<open>Text extractor\<close>

type_synonym bytes = "8 word list"

text \<open>
  The file object the extractor is called with: its \<^verbatim>\<open>originalname\<close>, any value
  (\<^verbatim>\<open>undefined\<close> when the property is missing; the upload middleware sets a string), and
  its \<^verbatim>\<open>buffer\<close> (\<open>None\<close> when the property is missing).
\<close>

record upload =
  originalname :: jsval
  buffer :: "bytes option"

text \<open>
  What the extractor calls outside this repository: \<^verbatim>\<open>path.extname\<close>, the three optional
  document libraries (\<open>None\<close> when the package is not installed) and
  \<^verbatim>\<open>Buffer.prototype.toString('utf-8')\<close>. A library call returns or raises. The PDF reader
  returns the pages of the document, each of which gives the strings of its text items
  or raises when it is read. \<open>extname\<close> is \<^verbatim>\<open>path.extname\<close> on strings; on any other
  argument \<^verbatim>\<open>path.extname\<close> raises a TypeError.
\<close>

record libraries =
  extname :: "jstring \<Rightarrow> jstring"
  pdfjsLib :: "(bytes option \<Rightarrow> js_error + (js_error + jstring list) list) option"
  pdfParse :: "(bytes option \<Rightarrow> js_error + jstring) option"
  mammoth :: "(bytes option \<Rightarrow> js_error + jstring) option"
  toString_utf8 :: "bytes \<Rightarrow> js_error + jstring"

text \<open>\<^verbatim>\<open>file.buffer\<close>: reading a property of a missing file raises.\<close>

definition file_buffer :: "upload option \<Rightarrow> js_error + bytes option" where
  "file_buffer file = (case file of None \<Rightarrow> Inl TypeError | Some f \<Rightarrow> Inr (buffer f))"

text \<open>\<^verbatim>\<open>xs.join(sep)\<close> on an array of strings.\<close>

fun join_str :: "jstring \<Rightarrow> jstring list \<Rightarrow> jstring" where
  "join_str sep [] = []"
| "join_str sep [x] = x"
| "join_str sep (x # y # ys) = x @ sep @ join_str sep (y # ys)"

text \<open>The page loop of the first PDF branch; \<open>text\<close> is the string built so far.\<close>

fun pdf_pages_text :: "(js_error + jstring list) list \<Rightarrow> jstring \<Rightarrow> js_error + jstring" where
  "pdf_pages_text [] text = Inr text"
| "pdf_pages_text (page # pages) text =
     (case page of
        Inl e \<Rightarrow> Inl e
      | Inr items \<Rightarrow> pdf_pages_text pages (text @ join_str [0x20] items @ [0xA]))"

text \<open>
  The text each decoder of the chain reads from the file, or the exception it ends with:
  the string the page loop builds, \<^verbatim>\<open>parsed.text\<close>, \<^verbatim>\<open>result.value\<close>, and the decoded bytes.
\<close>

definition read_pdfjs ::
  "(bytes option \<Rightarrow> js_error + (js_error + jstring list) list) \<Rightarrow> upload option
     \<Rightarrow> js_error + jstring" where
  "read_pdfjs lib file =
     (case file_buffer file of Inl e \<Rightarrow> Inl e | Inr b \<Rightarrow>
      case lib b of Inl e \<Rightarrow> Inl e | Inr pages \<Rightarrow> pdf_pages_text pages [])"

definition read_lib ::
  "(bytes option \<Rightarrow> js_error + jstring) \<Rightarrow> upload option \<Rightarrow> js_error + jstring" where
  "read_lib lib file = (case file_buffer file of Inl e \<Rightarrow> Inl e | Inr b \<Rightarrow> lib b)"

definition read_utf8 :: "(bytes \<Rightarrow> js_error + jstring) \<Rightarrow> upload option \<Rightarrow> js_error + jstring" where
  "read_utf8 decode file =
     (case file_buffer file of Inl e \<Rightarrow> Inl e | Inr b \<Rightarrow>
      case b of None \<Rightarrow> Inl TypeError | Some bs \<Rightarrow> decode bs)"

text \<open>
  The bodies of the four \<^verbatim>\<open>try\<close> blocks. \<open>Inl e\<close>: the block raised \<open>e\<close>;
  \<open>Inr (Some t)\<close>: the block returned \<open>t\<close> from the function; \<open>Inr None\<close>: the block
  ran to its end.
\<close>

definition try_pdfjs ::
  "(bytes option \<Rightarrow> js_error + (js_error + jstring list) list) \<Rightarrow> upload option \<Rightarrow> int
     \<Rightarrow> js_error + jstring option" where
  "try_pdfjs lib file maxChars =
     (case read_pdfjs lib file of Inl e \<Rightarrow> Inl e | Inr text \<Rightarrow>
      Inr (if trim text \<noteq> [] then Some (slice0 text maxChars) else None))"

definition try_pdfParse ::
  "(bytes option \<Rightarrow> js_error + jstring) \<Rightarrow> upload option \<Rightarrow> int \<Rightarrow> js_error + jstring option" where
  "try_pdfParse lib file maxChars =
     (case read_lib lib file of Inl e \<Rightarrow> Inl e | Inr text \<Rightarrow>
      Inr (if text \<noteq> [] \<and> trim text \<noteq> [] then Some (slice0 text maxChars) else None))"

definition try_mammoth ::
  "(bytes option \<Rightarrow> js_error + jstring) \<Rightarrow> upload option \<Rightarrow> js_error + jstring option" where
  "try_mammoth lib file =
     (case read_lib lib file of Inl e \<Rightarrow> Inl e | Inr v \<Rightarrow>
      Inr (if v \<noteq> [] \<and> trim v \<noteq> [] then Some v else None))"

definition try_utf8 ::
  "(bytes \<Rightarrow> js_error + jstring) \<Rightarrow> upload option \<Rightarrow> int \<Rightarrow> js_error + jstring option" where
  "try_utf8 decode file maxChars =
     (case read_utf8 decode file of Inl e \<Rightarrow> Inl e | Inr text \<Rightarrow>
      Inr (if trim text \<noteq> [] then Some (slice0 text maxChars) else None))"

text \<open>\<^verbatim>\<open>catch (e) { console.error(...) }\<close>: the exception is logged and dropped.\<close>

definition catch_log :: "js_error + 'a option \<Rightarrow> 'a option" where
  "catch_log r = (case r of Inl e \<Rightarrow> None | Inr x \<Rightarrow> x)"

text \<open>\<^verbatim>\<open>file?.originalname || ''\<close>, the argument of \<^verbatim>\<open>path.extname\<close>.\<close>

definition extname_arg :: "upload option \<Rightarrow> jsval" where
  "extname_arg file =
     js_or (case file of None \<Rightarrow> JUndefined | Some f \<Rightarrow> originalname f) (JStr [])"

text \<open>
  The first statement of the function, outside every \<^verbatim>\<open>try\<close>: the extension of the
  name in lower case. The extension is compared after \<^verbatim>\<open>toLowerCase\<close>, which agrees with
  the ASCII mapping wherever its result is one of the three constants it is compared with.
\<close>

definition file_ext :: "libraries \<Rightarrow> upload option \<Rightarrow> js_error + jstring" where
  "file_ext L file =
     (case extname_arg file of
        JStr n \<Rightarrow> Inr (toLowerCase (extname L n))
      | _ \<Rightarrow> Inl TypeError)"

text \<open>
  The candidates of the chain, in the order of the source: the text a branch returns,
  \<open>None\<close> when the branch is not taken, raises, or finds only blank text.
\<close>

definition branch_pdfjs :: "libraries \<Rightarrow> jstring \<Rightarrow> upload option \<Rightarrow> int \<Rightarrow> jstring option" where
  "branch_pdfjs L ext file maxChars =
     (case pdfjsLib L of
        Some lib \<Rightarrow>
          if ext = str ''.pdf'' then catch_log (try_pdfjs lib file maxChars) else None
      | None \<Rightarrow> None)"

definition branch_pdfParse :: "libraries \<Rightarrow> jstring \<Rightarrow> upload option \<Rightarrow> int \<Rightarrow> jstring option" where
  "branch_pdfParse L ext file maxChars =
     (case pdfParse L of
        Some lib \<Rightarrow>
          if ext = str ''.pdf'' then catch_log (try_pdfParse lib file maxChars) else None
      | None \<Rightarrow> None)"

definition branch_mammoth :: "libraries \<Rightarrow> jstring \<Rightarrow> upload option \<Rightarrow> jstring option" where
  "branch_mammoth L ext file =
     (case mammoth L of
        Some lib \<Rightarrow>
          if ext = str ''.docx'' \<or> ext = str ''.doc''
          then catch_log (try_mammoth lib file) else None
      | None \<Rightarrow> None)"

definition branch_utf8 :: "libraries \<Rightarrow> upload option \<Rightarrow> int \<Rightarrow> jstring option" where
  "branch_utf8 L file maxChars = catch_log (try_utf8 (toString_utf8 L) file maxChars)"

definition extractResumeText :: "libraries \<Rightarrow> upload option \<Rightarrow> int \<Rightarrow> js_error + jstring" where
  "extractResumeText L file maxChars =
     (case file_ext L file of Inl e \<Rightarrow> Inl e | Inr ext \<Rightarrow>
      case branch_pdfjs L ext file maxChars of Some t \<Rightarrow> Inr t | None \<Rightarrow>
      case branch_pdfParse L ext file maxChars of Some t \<Rightarrow> Inr t | None \<Rightarrow>
      case branch_mammoth L ext file of Some t \<Rightarrow> Inr t | None \<Rightarrow>
      case branch_utf8 L file maxChars of Some t \<Rightarrow> Inr t | None \<Rightarrow>
      Inr [])"

section \<open>The completion service\<close>

datatype role = System | User

record request =
  model :: string
  response_format :: "string option"
  temperature :: real
  messages :: "(role \<times> jstring) list"
  max_tokens :: "nat option"

text \<open>
  A completion, reduced to what the code reads of it: for every choice, the content of its
  message (\<open>None\<close> when the message or its content is missing or \<^verbatim>\<open>null\<close>).
\<close>

datatype completion = Completion (choices: "jstring option list")

text \<open>
  The service answers a request with a completion or raises (\<open>None\<close>); its answer may
  depend on the requests it has received before. Every call is recorded in the list of
  the calls made so far, which the functions below pass along.
\<close>

type_synonym service = "request list \<Rightarrow> request \<Rightarrow> completion option"

definition create ::
  "service \<Rightarrow> request \<Rightarrow> request list \<Rightarrow> (js_error + completion) \<times> request list" where
  "create openaiClient req calls =
     (case openaiClient calls req of None \<Rightarrow> Inl ServiceError | Some c \<Rightarrow> Inr c,
      calls @ [req])"

text \<open>\<^verbatim>\<open>completion.choices[0]?.message?.content\<close>\<close>

definition first_content :: "completion \<Rightarrow> jstring option" where
  "first_content c = (case choices c of [] \<Rightarrow> None | x # _ \<Rightarrow> x)"

definition schema_text :: string where
  "schema_text = ''{skills:[string], contact:{name,email,phone,location}, summary:string, experience:[{title,company,start_date,end_date,responsibilities:[string]}], education:[{degree,institution,year}], certifications:[string], languages:[string], links:[string]}''"

definition base_system :: jstring where
  "base_system = str (''You are a resume parser. Return ONLY JSON (no markdown, no prose). Schema: '' @ schema_text @ ''. Use ONLY the provided resume text; do not invent data.'')"

definition retry_system :: jstring where
  "retry_system = str (''You are a resume parser. Return ONLY JSON (no markdown). Extract actual data from the resume text; do not invent. Schema: '' @ schema_text @ ''. Ensure skills and experience are filled when present in text.'')"

definition repair_system :: jstring where
  "repair_system = str (''You are a strict JSON reformatter. Given a model reply, return ONLY valid JSON matching this schema: '' @ schema_text @ ''. No markdown, no prose.'')"

definition route_system :: jstring where
  "route_system = str (''You are a resume parser. Return ONLY JSON (no markdown, no prose). Schema: '' @ schema_text @ ''. Use the provided resume text; do not invent data.'')"

definition parse_user :: "jstring \<Rightarrow> jstring" where
  "parse_user truncatedText =
     str ''Parse this resume text and respond with JSON only (no extra text):\<newline>\<newline>'' @ truncatedText"

definition baseMessages :: "jstring \<Rightarrow> (role \<times> jstring) list" where
  "baseMessages truncatedText = [(System, base_system), (User, parse_user truncatedText)]"

definition retryMessages :: "jstring \<Rightarrow> (role \<times> jstring) list" where
  "retryMessages truncatedText = [(System, retry_system), (User, parse_user truncatedText)]"

definition strict_request :: "(role \<times> jstring) list \<Rightarrow> request" where
  "strict_request msgs =
     \<lparr>model = ''gpt-3.5-turbo-1106'', response_format = Some ''json_object'',
      temperature = 1 / 10, messages = msgs, max_tokens = Some 2000\<rparr>"

definition repair_request :: "jstring \<Rightarrow> request" where
  "repair_request aiResponse =
     \<lparr>model = ''gpt-3.5-turbo'', response_format = None, temperature = 0,
      messages = [(System, repair_system),
                  (User, str ''Fix this to valid JSON only: '' @ aiResponse)],
      max_tokens = None\<rparr>"

definition route_request :: "jstring \<Rightarrow> request" where
  "route_request truncatedText =
     \<lparr>model = ''gpt-3.5-turbo-1106'', response_format = Some ''json_object'',
      temperature = 2 / 10,
      messages = [(System, route_system), (User, parse_user truncatedText)],
      max_tokens = Some 2000\<rparr>"

section \<open>AI structured parser\<close>

text \<open>
  \<^verbatim>\<open>JSON.parse\<close> is a parameter \<open>JSON_parse\<close> of the functions below: it returns the
  parsed value or raises a SyntaxError (\<open>None\<close>).
\<close>

type_synonym json_parser = "jstring \<Rightarrow> jsval option"

text \<open>\<open>None\<close> is the \<^verbatim>\<open>null\<close> the source returns when its \<^verbatim>\<open>try\<close> block raised.\<close>

definition parseAiResponseToJson :: "json_parser \<Rightarrow> jstring \<Rightarrow> jstring \<Rightarrow> profile option" where
  "parseAiResponseToJson JSON_parse aiResponse resumeText =
     (case JSON_parse aiResponse of
        None \<Rightarrow> None
      | Some parsed \<Rightarrow>
          (case normalizeParsed parsed resumeText of Inl e \<Rightarrow> None | Inr p \<Rightarrow> Some p))"

definition repairAiResponse ::
  "service \<Rightarrow> json_parser \<Rightarrow> jstring \<Rightarrow> jstring \<Rightarrow> request list
     \<Rightarrow> profile option \<times> request list" where
  "repairAiResponse openaiClient JSON_parse aiResponse resumeText calls =
     (case create openaiClient (repair_request aiResponse) calls of
        (Inl err, calls') \<Rightarrow> (None, calls')
      | (Inr repair, calls') \<Rightarrow>
          (case first_content repair of
             None \<Rightarrow> (None, calls')
           | Some repaired \<Rightarrow>
               if repaired \<noteq> []
               then (parseAiResponseToJson JSON_parse repaired resumeText, calls')
               else (None, calls')))"

definition strictCall ::
  "service \<Rightarrow> (role \<times> jstring) list \<Rightarrow> request list \<Rightarrow> (js_error + jstring) \<times> request list" where
  "strictCall openaiClient msgs calls =
     (case create openaiClient (strict_request msgs) calls of
        (Inl err, calls') \<Rightarrow> (Inl err, calls')
      | (Inr completion, calls') \<Rightarrow>
          (Inr (case first_content completion of None \<Rightarrow> [] | Some c \<Rightarrow> c), calls'))"

text \<open>The condition \<^verbatim>\<open>needsRetry\<close>, on the value of \<^verbatim>\<open>parsed\<close> after the first attempt.\<close>

definition needsRetry :: "profile option \<Rightarrow> bool" where
  "needsRetry parsed =
     (case parsed of
        None \<Rightarrow> True
      | Some p \<Rightarrow>
          (length (skills p) = 0 \<or> list_all (\<lambda>s. trim s = []) (skills p))
          \<and> length (experience p) = 0
          \<and> (\<not> truthy (name (contact p)) \<and> \<not> truthy (email (contact p))
             \<and> \<not> truthy (phone (contact p))))"

text \<open>
  \<^verbatim>\<open>parseAiResponseToJson\<close> followed, when it returned \<^verbatim>\<open>null\<close>, by \<^verbatim>\<open>repairAiResponse\<close>:
  the two statements that follow each \<^verbatim>\<open>strictCall\<close> in the source.
\<close>

definition parse_or_repair ::
  "service \<Rightarrow> json_parser \<Rightarrow> jstring \<Rightarrow> jstring \<Rightarrow> request list
     \<Rightarrow> profile option \<times> request list" where
  "parse_or_repair openaiClient JSON_parse aiResponse truncatedText calls =
     (case parseAiResponseToJson JSON_parse aiResponse truncatedText of
        Some p \<Rightarrow> (Some p, calls)
      | None \<Rightarrow> repairAiResponse openaiClient JSON_parse aiResponse truncatedText calls)"

definition aiParseResume ::
  "service \<Rightarrow> json_parser \<Rightarrow> jstring \<Rightarrow> request list \<Rightarrow> (js_error + profile) \<times> request list" where
  "aiParseResume openaiClient JSON_parse resumeText calls =
     (let truncatedText = slice0 resumeText 15000 in
      case strictCall openaiClient (baseMessages truncatedText) calls of
        (Inl err, calls1) \<Rightarrow> (Inl err, calls1)
      | (Inr aiResponse, calls1) \<Rightarrow>
          (case parse_or_repair openaiClient JSON_parse aiResponse truncatedText calls1 of
             (parsed, calls2) \<Rightarrow>
               if needsRetry parsed
               then (case strictCall openaiClient (retryMessages truncatedText) calls2 of
                       (Inl err, calls3) \<Rightarrow> (Inl err, calls3)
                     | (Inr aiResponse2, calls3) \<Rightarrow>
                         (case parse_or_repair openaiClient JSON_parse aiResponse2 truncatedText calls3 of
                            (parsed2, calls4) \<Rightarrow>
                              (case parsed2 of
                                 None \<Rightarrow> (Inl AIParseFailed, calls4)
                               | Some p \<Rightarrow> (Inr p, calls4))))
               else (case parsed of
                       None \<Rightarrow> (Inl AIParseFailed, calls2)
                     | Some p \<Rightarrow> (Inr p, calls2))))"

section \<open>The upload route of the parse-resume request\<close>

text \<open>
  The response: the status and, of the JSON body, the \<^verbatim>\<open>error\<close> label or the parsed
  profile (the \<^verbatim>\<open>message\<close> and preview fields of an error body are left out).
\<close>

datatype payload = ErrorJson string | ParsedJson profile

datatype response = Response (status: nat) (body: payload)

text \<open>
  The handler from the point where the upload middleware has run: \<open>file\<close> is the uploaded
  file if any, \<open>openai\<close> the client if an API key and the client package are present.
  An exception outside the inner \<^verbatim>\<open>try\<close> reaches the handler's last \<^verbatim>\<open>catch\<close>; the
  first is raised by \<^verbatim>\<open>path.extname(filename)\<close> when the name is not a string.
\<close>

definition parse_resume_upload ::
  "libraries \<Rightarrow> service option \<Rightarrow> json_parser \<Rightarrow> upload option \<Rightarrow> request list
     \<Rightarrow> response \<times> request list" where
  "parse_resume_upload L openai JSON_parse file calls =
     (case file of
        None \<Rightarrow> (Response 400 (ErrorJson ''resume file is required''), calls)
      | Some f \<Rightarrow>
          (case originalname f of
             JStr filename \<Rightarrow>
               (case extractResumeText L file 60000 of
                  Inl e \<Rightarrow> (Response 500 (ErrorJson ''Internal server error''), calls)
                | Inr resumeText \<Rightarrow>
                    if resumeText = [] \<or> trim resumeText = []
                    then (Response 400 (ErrorJson ''Could not extract text from file''), calls)
                    else (case openai of
                            None \<Rightarrow> (Response 503 (ErrorJson ''AI not configured''), calls)
                          | Some client \<Rightarrow>
                              (let truncatedText = slice0 resumeText 15000 in
                               case create client (route_request truncatedText) calls of
                                 (Inl aiError, calls1) \<Rightarrow>
                                   (Response 500 (ErrorJson ''AI parsing failed''), calls1)
                               | (Inr completion, calls1) \<Rightarrow>
                                   (let aiResponse =
                                          (case first_content completion of
                                             None \<Rightarrow> [] | Some c \<Rightarrow> c)
                                    in case parse_or_repair client JSON_parse aiResponse
                                              truncatedText calls1 of
                                         (None, calls2) \<Rightarrow>
                                           (Response 500 (ErrorJson ''AI parse failed''), calls2)
                                       | (Some parsed, calls2) \<Rightarrow>
                                           (Response 200 (ParsedJson parsed), calls2)))))
           | _ \<Rightarrow> (Response 500 (ErrorJson ''Internal server error''), calls)))"

section \<open>Properties and sample inputs of the claims\<close>

text \<open>A non-empty string with no leading and no trailing whitespace.\<close>

definition trimmed :: "jstring \<Rightarrow> bool" where
  "trimmed s = (s \<noteq> [] \<and> \<not> is_ws (hd s) \<and> \<not> is_ws (last s))"

text \<open>
  \<^verbatim>\<open>path.extname\<close> on the names used in the examples below: a file name with a single
  dot, which is not its first character, has the extension that starts at the dot.
\<close>

definition simple_extname :: "jstring \<Rightarrow> jstring" where
  "simple_extname n = dropWhile (\<lambda>c. c \<noteq> 0x2E) n"

text \<open>
  A DOCX upload of which the converter reads 60,001 characters (the letter \<^verbatim>\<open>a\<close>
  repeated), on a server where only the DOC/DOCX converter is installed.
\<close>

definition docx_text :: jstring where
  "docx_text = replicate 60001 0x61"

definition docx_convert :: "bytes option \<Rightarrow> js_error + jstring" where
  "docx_convert b = Inr docx_text"

text \<open>\<^verbatim>\<open>buffer.toString('utf-8')\<close> on a buffer of ASCII bytes, as the buffers below are.\<close>

definition utf8_ascii :: "bytes \<Rightarrow> js_error + jstring" where
  "utf8_ascii bs = Inr (map ucast bs)"

definition docx_libs :: libraries where
  "docx_libs =
     \<lparr>extname = simple_extname, pdfjsLib = None, pdfParse = None,
      mammoth = Some docx_convert, toString_utf8 = utf8_ascii\<rparr>"

definition docx_file :: "upload option" where
  "docx_file = Some \<lparr>originalname = JStr (str ''cv.docx''), buffer = Some [0x50, 0x4B]\<rparr>"

text \<open>A parsed model reply and the profile it normalizes to.\<close>

definition sample_raw :: jsval where
  "sample_raw = JObj
     [(str ''skills'', JArr [JStr (str '' Go ''), JStr (str ''  ''), JNum (str ''7'')]),
      (str ''name'', JStr (str ''Ann'')),
      (str ''experience'',
         JArr [JObj [(str ''role'', JStr (str ''Dev'')),
                     (str ''responsibilities'', JStr (str ''build, test''))]]),
      (str ''links'', JStr (str ''a.example\<newline> b.example ''))]"

definition sample_profile :: profile where
  "sample_profile =
     \<lparr>skills = [str ''Go'', str ''7''],
      contact = \<lparr>name = JStr (str ''Ann''), email = JNull, phone = JNull, location = JNull\<rparr>,
      summary = JStr [],
      experience = [\<lparr>title = JStr (str ''Dev''), company = JStr [], start_date = JStr [],
                     end_date = JStr [], responsibilities = [str ''build'', str ''test'']\<rparr>],
      education = [], certifications = [], languages = [],
      links = [str ''a.example'', str ''b.example'']\<rparr>"

subsection \<open>The extraction chain\<close>

text \<open>
  The name of the file is a string, or is missing or another falsy value (in whose place
  the extractor takes the empty string).
\<close>

definition name_ok :: "upload option \<Rightarrow> bool" where
  "name_ok file = (case extname_arg file of JStr n \<Rightarrow> True | _ \<Rightarrow> False)"

text \<open>A decoder raised, or the text it read is empty or only whitespace.\<close>

definition blank_or_raised :: "js_error + jstring \<Rightarrow> bool" where
  "blank_or_raised r = (case r of Inl e \<Rightarrow> True | Inr t \<Rightarrow> trim t = [])"

text \<open>
  What the decoders that apply to the file read from it, in the order of the chain: the
  two PDF readers for the extension \<^verbatim>\<open>.pdf\<close>, the converter for \<^verbatim>\<open>.docx\<close> and \<^verbatim>\<open>.doc\<close>
  (each only if installed), and the UTF-8 decoding for every file.
\<close>

definition outputs_pdfjs ::
  "libraries \<Rightarrow> jstring \<Rightarrow> upload option \<Rightarrow> (js_error + jstring) list" where
  "outputs_pdfjs L ext file =
     (case pdfjsLib L of
        Some lib \<Rightarrow> if ext = str ''.pdf'' then [read_pdfjs lib file] else []
      | None \<Rightarrow> [])"

definition outputs_pdfParse ::
  "libraries \<Rightarrow> jstring \<Rightarrow> upload option \<Rightarrow> (js_error + jstring) list" where
  "outputs_pdfParse L ext file =
     (case pdfParse L of
        Some lib \<Rightarrow> if ext = str ''.pdf'' then [read_lib lib file] else []
      | None \<Rightarrow> [])"

definition outputs_mammoth ::
  "libraries \<Rightarrow> jstring \<Rightarrow> upload option \<Rightarrow> (js_error + jstring) list" where
  "outputs_mammoth L ext file =
     (case mammoth L of
        Some lib \<Rightarrow>
          if ext = str ''.docx'' \<or> ext = str ''.doc'' then [read_lib lib file] else []
      | None \<Rightarrow> [])"

definition chain_outputs :: "libraries \<Rightarrow> upload option \<Rightarrow> (js_error + jstring) list" where
  "chain_outputs L file =
     (case file_ext L file of
        Inl e \<Rightarrow> []
      | Inr ext \<Rightarrow>
          outputs_pdfjs L ext file @ outputs_pdfParse L ext file @ outputs_mammoth L ext file
            @ [read_utf8 (toString_utf8 L) file])"

subsection \<open>The keys of a profile\<close>


text \<open>The profile with nothing in it, and a value with an own \<^verbatim>\<open>toString\<close> in \<^verbatim>\<open>skills\<close>.\<close>

definition blank_profile :: profile where
  "blank_profile =
     \<lparr>skills = [],
      contact = \<lparr>name = JNull, email = JNull, phone = JNull, location = JNull\<rparr>,
      summary = JStr [],
      experience = [], education = [], certifications = [], languages = [], links = []\<rparr>"


subsection \<open>The calls of the AI parser\<close>

text \<open>
  The request of the first attempt and the request of the second, stricter attempt, for a
  resume text; requests are told apart by their model: the primary attempts use
  \<^verbatim>\<open>gpt-3.5-turbo-1106\<close>, the repair uses \<^verbatim>\<open>gpt-3.5-turbo\<close>.
\<close>

definition base_call :: "jstring \<Rightarrow> request" where
  "base_call resumeText = strict_request (baseMessages (slice0 resumeText 15000))"

definition retry_call :: "jstring \<Rightarrow> request" where
  "retry_call resumeText = strict_request (retryMessages (slice0 resumeText 15000))"

definition primary_call :: "request \<Rightarrow> bool" where
  "primary_call r = (model r = ''gpt-3.5-turbo-1106'')"

definition repair_call :: "request \<Rightarrow> bool" where
  "repair_call r = (model r = ''gpt-3.5-turbo'')"

text \<open>The calls that one run of the parser adds to the calls made before it.\<close>

definition new_calls :: "service \<Rightarrow> json_parser \<Rightarrow> jstring \<Rightarrow> request list \<Rightarrow> request list" where
  "new_calls openaiClient JSON_parse resumeText calls =
     drop (length calls) (snd (aiParseResume openaiClient JSON_parse resumeText calls))"

text \<open>Two repair calls in a row.\<close>

fun repair_twice :: "request list \<Rightarrow> bool" where
  "repair_twice (a # b # rs) = ((repair_call a \<and> repair_call b) \<or> repair_twice (b # rs))"
| "repair_twice _ = False"

text \<open>
  A service that answers its first request with \<^verbatim>\<open>{}\<close> and every later one with prose,
  and \<^verbatim>\<open>JSON.parse\<close> on those two replies.
\<close>

definition braces_only :: json_parser where
  "braces_only s = (if s = str ''{}'' then Some (JObj []) else None)"

definition empty_then_prose :: service where
  "empty_then_prose calls req =
     (if calls = [] then Some (Completion [Some (str ''{}'')])
      else Some (Completion [Some (str ''Sorry, I cannot.'')]))"

text \<open>
  A service that answers every request with the JSON text
  \<^verbatim>\<open>{"name":"Ann","skills":[{"toString":1}]}\<close>, \<^verbatim>\<open>JSON.parse\<close> on that text and the value it
  parses to; and a service whose every call raises.
\<close>

definition quoted :: "string \<Rightarrow> jstring" where
  "quoted s = [0x22] @ str s @ [0x22]"

definition ann_reply :: jstring where
  "ann_reply =
     str ''{'' @ quoted ''name'' @ str '':'' @ quoted ''Ann'' @ str '','' @ quoted ''skills''
       @ str '':[{'' @ quoted ''toString'' @ str '':1}]}''"

definition ann_raw :: jsval where
  "ann_raw = JObj [(str ''name'', JStr (str ''Ann'')),
                   (str ''skills'', JArr [JObj [(str ''toString'', JNum (str ''1''))]])]"

definition ann_parser :: json_parser where
  "ann_parser s = (if s = ann_reply then Some ann_raw else None)"

definition always_ann :: service where
  "always_ann calls req = Some (Completion [Some ann_reply])"

definition never_answers :: service where
  "never_answers calls req = None"

subsection \<open>A plain-text upload\<close>

text \<open>
  A server without the document libraries and without an AI client, and the upload of a
  text file that reads \<^verbatim>\<open>Java\<close>.
\<close>

definition txt_libs :: libraries where
  "txt_libs =
     \<lparr>extname = simple_extname, pdfjsLib = None, pdfParse = None, mammoth = None,
      toString_utf8 = utf8_ascii\<rparr>"

definition txt_file :: "upload option" where
  "txt_file = Some \<lparr>originalname = JStr (str ''cv.txt''), buffer = Some [0x4A, 0x61, 0x76, 0x61]\<rparr>"

definition no_json :: json_parser where
  "no_json s = None"

text \<open>The same upload with the number 42 in the place of its name.\<close>

definition numbered_file :: "upload option" where
  "numbered_file = Some \<lparr>originalname = JNum (str ''42''), buffer = Some [0x4A, 0x61, 0x76, 0x61]\<rparr>"

definition java_profile :: profile where
  "java_profile =
     \<lparr>skills = [str ''Java''],
      contact = \<lparr>name = JNull, email = JNull, phone = JNull, location = JNull\<rparr>,
      summary = JStr heuristic_summary,
      experience = [], education = [], certifications = [], languages = [], links = []\<rparr>"

section \<open>Trimming\<close>

lemma dropWhile_hd: "dropWhile P xs \<noteq> [] \<Longrightarrow> \<not> P (hd (dropWhile P xs))"
  using hd_dropWhile by blast

lemma trim_trimmed: "trim s \<noteq> [] \<Longrightarrow> trimmed (trim s)"
proof -
  assume ne: "trim s \<noteq> []"
  define u where "u = dropWhile is_ws s"
  define v where "v = dropWhile is_ws (rev u)"
  have t: "trim s = rev v" by (simp add: trim_def u_def v_def)
  from ne t have vne: "v \<noteq> []" by simp
  hence l: "\<not> is_ws (hd v)" unfolding v_def by (rule dropWhile_hd)
  have une: "u \<noteq> []" using vne by (auto simp: v_def)
  hence hu: "\<not> is_ws (hd u)" unfolding u_def by (rule dropWhile_hd)
  have "rev u = takeWhile is_ws (rev u) @ v" by (simp add: v_def)
  hence "u = rev v @ rev (takeWhile is_ws (rev u))"
    by (metis rev_append rev_rev_ident)
  hence "hd u = hd (rev v)" using vne by (metis hd_append2 rev_is_Nil_conv)
  with hu have "\<not> is_ws (hd (rev v))" by simp
  moreover have "last (rev v) = hd v" using vne by (simp add: last_rev)
  ultimately show ?thesis using l vne t by (simp add: trimmed_def)
qed

lemma trimmed_trim: "trimmed s \<Longrightarrow> trim s = s"
proof -
  assume a: "trimmed s"
  then obtain c cs where s: "s = c # cs" and c: "\<not> is_ws c" 
    by (cases s) (auto simp: trimmed_def)
  have 1: "dropWhile is_ws s = s" using s c by simp
  from a have "rev s \<noteq> []" "\<not> is_ws (hd (rev s))" by (auto simp: trimmed_def hd_rev)
  hence 2: "dropWhile is_ws (rev s) = rev s" by (cases "rev s") auto
  show ?thesis by (simp add: trim_def 1 2)
qed

lemma trimmed_not_blank: "trimmed s \<Longrightarrow> trim s \<noteq> []"
  by (simp add: trimmed_trim) (simp add: trimmed_def)

lemma map_js_set:
  "map_js f xs = Inr ys \<Longrightarrow> y \<in> set ys \<Longrightarrow> \<exists>x \<in> set xs. f x = Inr y"
  by (induction xs arbitrary: ys) (auto split: sum.splits)

lemma normalizeSkills_trimmed:
  assumes "normalizeSkills raw = Inr xs" and "s \<in> set xs"
  shows "trimmed s"
proof (cases raw)
  case (JArr vs)
  with assms obtain ts where
    m: "map_js (\<lambda>s. case String_js s of Inl e \<Rightarrow> Inl e | Inr t \<Rightarrow> Inr (trim t)) vs = Inr ts"
    and xs: "xs = filter (\<lambda>t. t \<noteq> []) ts"
    by (auto simp: normalizeSkills_def split: sum.splits)
  from xs assms(2) have "s \<in> set ts" "s \<noteq> []" by auto
  from map_js_set [OF m this(1)] obtain v where
    "(case String_js v of Inl e \<Rightarrow> Inl e | Inr t \<Rightarrow> Inr (trim t)) = Inr s" by blast
  then obtain t where "s = trim t" by (cases "String_js v") auto
  with \<open>s \<noteq> []\<close> show ?thesis by (simp add: trim_trimmed)
next
  case (JStr str)
  with assms have "s \<noteq> []" "\<exists>t. s = trim t" by (auto simp: normalizeSkills_def)
  then show ?thesis by (auto simp: trim_trimmed)
qed (use assms in \<open>auto simp: normalizeSkills_def\<close>)

lemma map_js_all:
  "(\<And>x. x \<in> set xs \<Longrightarrow> f x = Inr (g x)) \<Longrightarrow> map_js f xs = Inr (map g xs)"
  by (induction xs) auto

lemma normalizeSkills_fix:
  assumes "\<And>s. s \<in> set xs \<Longrightarrow> trimmed s"
  shows "normalizeSkills (JArr (map JStr xs)) = Inr xs"
proof -
  have "map_js (\<lambda>s. case String_js s of Inl e \<Rightarrow> Inl e | Inr t \<Rightarrow> Inr (trim t)) (map JStr xs)
        = Inr (map (\<lambda>v. case v of JStr s \<Rightarrow> s | _ \<Rightarrow> []) (map JStr xs))"
    by (rule map_js_all) (use assms in \<open>auto simp: trimmed_trim\<close>)
  also have "map (\<lambda>v. case v of JStr s \<Rightarrow> s | _ \<Rightarrow> []) (map JStr xs) = xs"
    by (induction xs) auto
  finally show ?thesis using assms
    by (auto simp: normalizeSkills_def trimmed_def filter_id_conv)
qed

section \<open>The embeddings of a profile, read back\<close>

lemma get_experience_json:
  "get (experience_json e) ''title'' = title e"
  "get (experience_json e) ''role'' = JUndefined"
  "get (experience_json e) ''company'' = company e"
  "get (experience_json e) ''organization'' = JUndefined"
  "get (experience_json e) ''start_date'' = start_date e"
  "get (experience_json e) ''startDate'' = JUndefined"
  "get (experience_json e) ''from'' = JUndefined"
  "get (experience_json e) ''end_date'' = end_date e"
  "get (experience_json e) ''endDate'' = JUndefined"
  "get (experience_json e) ''to'' = JUndefined"
  "get (experience_json e) ''responsibilities'' = JArr (map JStr (responsibilities e))"
  "get (experience_json e) ''responsibility'' = JUndefined"
  by (simp_all add: experience_json_def str_def)

lemma get_profile_json:
  "get (profile_json p) ''skills'' = JArr (map JStr (skills p))"
  "get (profile_json p) ''contact'' = contact_json (contact p)"
  "get (profile_json p) ''summary'' = summary p"
  "get (profile_json p) ''experience'' = JArr (map experience_json (experience p))"
  "get (profile_json p) ''education'' = JArr (education p)"
  "get (profile_json p) ''certifications'' = JArr (map JStr (certifications p))"
  "get (profile_json p) ''languages'' = JArr (map JStr (languages p))"
  "get (profile_json p) ''links'' = JArr (map JStr (links p))"
  "get (profile_json p) ''email'' = JUndefined"
  "get (profile_json p) ''phone'' = JUndefined"
  "get (profile_json p) ''name'' = JUndefined"
  "get (profile_json p) ''location'' = JUndefined"
  by (simp_all add: profile_json_def str_def)

lemma get_contact_json:
  "get (contact_json c) ''name'' = name c"
  "get (contact_json c) ''email'' = email c"
  "get (contact_json c) ''phone'' = phone c"
  "get (contact_json c) ''location'' = location c"
  by (simp_all add: contact_json_def str_def)

section \<open>Normalizing a normalized profile\<close>

lemma truthy_json [simp]: "truthy (profile_json p)" "truthy (contact_json c)" "truthy (experience_json e)"
  by (simp_all add: profile_json_def contact_json_def experience_json_def)

lemma js_or_simps [simp]:
  "js_or JUndefined b = b" "js_or JNull b = b" "js_or (JArr xs) b = JArr xs"
  "js_or (JObj kvs) b = JObj kvs"
  by (simp_all add: js_or_def)

lemma js_or_absorb: "js_or y c = y \<Longrightarrow> js_or (js_or a y) c = js_or a y"
  by (simp add: js_or_def)

lemma js_or_same: "js_or c c = c"
  by (simp add: js_or_def)

lemma js_or_fallback:
  "js_or (js_or (js_or (js_or a (js_or b m)) n) m) n = js_or (js_or a (js_or b m)) n"
  by (simp add: js_or_def)

lemma normalizeExperienceItem_fix:
  assumes "normalizeExperienceItem item = Inr e"
  shows "normalizeExperienceItem (experience_json e) = Inr e"
proof -
  define obj where "obj = js_or item (JObj [])"
  from assms obtain rs where
    rs: "normalizeSkills (js_or (get obj ''responsibilities'')
           (js_or (get obj ''responsibility'') (JArr []))) = Inr rs"
    and e: "e = \<lparr>title = js_or (get obj ''title'') (js_or (get obj ''role'') (JStr [])),
           company = js_or (get obj ''company'') (js_or (get obj ''organization'') (JStr [])),
           start_date = js_or (get obj ''start_date'')
                          (js_or (get obj ''startDate'') (js_or (get obj ''from'') (JStr []))),
           end_date = js_or (get obj ''end_date'')
                        (js_or (get obj ''endDate'') (js_or (get obj ''to'') (JStr []))),
           responsibilities = rs\<rparr>"
    by (auto simp: normalizeExperienceItem_def Let_def obj_def split: sum.splits)
  have fx: "normalizeSkills (JArr (map JStr rs)) = Inr rs"
    by (rule normalizeSkills_fix) (rule normalizeSkills_trimmed [OF rs])
  have r: "responsibilities e = rs" by (simp add: e)
  have t: "js_or (title e) (JStr []) = title e" "js_or (company e) (JStr []) = company e"
    "js_or (start_date e) (JStr []) = start_date e" "js_or (end_date e) (JStr []) = end_date e"
    by (simp_all add: e js_or_absorb js_or_same)
  show ?thesis
    by (simp add: normalizeExperienceItem_def Let_def js_or_def [of "experience_json e"]
        get_experience_json r fx t)
qed

lemma map_js_fix:
  assumes "\<And>x y. f x = Inr y \<Longrightarrow> f (g y) = Inr y"
  shows "map_js f xs = Inr ys \<Longrightarrow> map_js f (map g ys) = Inr ys"
proof (induction xs arbitrary: ys)
  case Nil
  then show ?case by simp
next
  case (Cons x xs)
  then obtain y ys' where "f x = Inr y" "map_js f xs = Inr ys'" "ys = y # ys'"
    by (auto split: sum.splits)
  with Cons.IH [of ys'] assms [of x y] show ?case by simp
qed

lemma normalizeExperience_fix:
  assumes "normalizeExperience raw = Inr es"
  shows "normalizeExperience (JArr (map experience_json es)) = Inr es"
proof (cases raw)
  case (JArr xs)
  with assms have "map_js normalizeExperienceItem xs = Inr es"
    by (simp add: normalizeExperience_def)
  hence "map_js normalizeExperienceItem (map experience_json es) = Inr es"
    by (rule map_js_fix [rotated]) (rule normalizeExperienceItem_fix)
  thus ?thesis by (simp add: normalizeExperience_def)
qed (use assms in \<open>auto simp: normalizeExperience_def\<close>)

lemma normalizeSkills_fix':
  "normalizeSkills raw = Inr xs \<Longrightarrow> normalizeSkills (JArr (map JStr xs)) = Inr xs"
  by (rule normalizeSkills_fix) (rule normalizeSkills_trimmed)

lemma normalizeParsed_fix:
  assumes "normalizeParsed x t = Inr p"
  shows "normalizeParsed (profile_json p) t = Inr p"
proof -
  define safe where "safe = js_or x (JObj [])"
  define ct where "ct = js_or (get safe ''contact'') (JObj [])"
  from assms obtain sk ex ce la li where
    sk: "normalizeSkills (get safe ''skills'') = Inr sk"
    and ex: "normalizeExperience (get safe ''experience'') = Inr ex"
    and ce: "normalizeSkills (get safe ''certifications'') = Inr ce"
    and la: "normalizeSkills (get safe ''languages'') = Inr la"
    and li: "normalizeSkills (get safe ''links'') = Inr li"
    and p: "p = \<lparr>skills = sk,
           contact =
             \<lparr>name = js_or (get ct ''name'') (js_or (get safe ''name'') JNull),
              email = js_or (js_or (get safe ''email'')
                    (js_or (get ct ''email'') (match0 email_at t))) JNull,
              phone = js_or (js_or (get safe ''phone'')
                    (js_or (get ct ''phone'') (match0 phone_at t))) JNull,
              location = js_or (get ct ''location'') (js_or (get safe ''location'') JNull)\<rparr>,
           summary = js_or (get safe ''summary'') (JStr []),
           experience = ex,
           education = (case get safe ''education'' of JArr xs \<Rightarrow> xs | _ \<Rightarrow> []),
           certifications = ce,
           languages = la,
           links = li\<rparr>"
    by (auto simp: normalizeParsed_def Let_def safe_def ct_def split: sum.splits)
  have f: "skills p = sk" "experience p = ex" "certifications p = ce" "languages p = la"
    "links p = li" by (simp_all add: p)
  have c: "js_or (name (contact p)) JNull = name (contact p)"
    "js_or (location (contact p)) JNull = location (contact p)"
    "js_or (summary p) (JStr []) = summary p"
    "js_or (js_or (email (contact p)) (match0 email_at t)) JNull = email (contact p)"
    "js_or (js_or (phone (contact p)) (match0 phone_at t)) JNull = phone (contact p)"
    by (simp_all add: p js_or_absorb js_or_same js_or_fallback)
  show ?thesis
    by (simp add: normalizeParsed_def Let_def js_or_def [of "profile_json p"]
        js_or_def [of "contact_json (contact p)"] get_profile_json get_contact_json f
        normalizeSkills_fix' [OF sk] normalizeSkills_fix' [OF ce] normalizeSkills_fix' [OF la]
        normalizeSkills_fix' [OF li] normalizeExperience_fix [OF ex] c)
qed

lemma normalizeExperienceItem_trimmed:
  assumes "normalizeExperienceItem item = Inr e" and "s \<in> set (responsibilities e)"
  shows "trimmed s"
proof -
  from assms(1) obtain raw where "normalizeSkills raw = Inr (responsibilities e)"
    by (auto simp: normalizeExperienceItem_def Let_def split: sum.splits)
  from normalizeSkills_trimmed [OF this assms(2)] show ?thesis .
qed

lemma normalizeExperience_trimmed:
  assumes "normalizeExperience raw = Inr es" and "e \<in> set es" and "s \<in> set (responsibilities e)"
  shows "trimmed s"
proof (cases raw)
  case (JArr xs)
  with assms(1) have "map_js normalizeExperienceItem xs = Inr es"
    by (simp add: normalizeExperience_def)
  from map_js_set [OF this assms(2)] obtain item where "normalizeExperienceItem item = Inr e"
    by blast
  from normalizeExperienceItem_trimmed [OF this assms(3)] show ?thesis .
qed (use assms in \<open>auto simp: normalizeExperience_def\<close>)

lemma normalizeParsed_parts:
  assumes "normalizeParsed x t = Inr p"
  shows "\<exists>raw. normalizeSkills raw = Inr (skills p)"
    and "\<exists>raw. normalizeSkills raw = Inr (certifications p)"
    and "\<exists>raw. normalizeSkills raw = Inr (languages p)"
    and "\<exists>raw. normalizeSkills raw = Inr (links p)"
    and "\<exists>raw. normalizeExperience raw = Inr (experience p)"
  using assms by (auto simp: normalizeParsed_def Let_def split: sum.splits)

lemma sample_normalized: "normalizeParsed sample_raw [] = Inr sample_profile"
  by code_simp

section \<open>Claims about the schema normalizer\<close>

text \<open>
  Claim C6. \<^verbatim>\<open>normalizeParsed\<close> is idempotent: normalizing the object that a first
  normalization has built, with the same original text, gives the same profile again; the
  nested call \<^verbatim>\<open>normalizeParsed(normalizeParsed(x, t), t)\<close> ends as
  \<^verbatim>\<open>normalizeParsed(x, t)\<close> does, also when that raises.
\<close>

theorem C6_normalize_idempotent:
  "(case normalizeParsed x t of
      Inl e \<Rightarrow> Inl e
    | Inr p \<Rightarrow> normalizeParsed (profile_json p) t) = normalizeParsed x t"
  by (cases "normalizeParsed x t") (simp_all add: normalizeParsed_fix)

theorem C6_witness:
  "normalizeParsed sample_raw [] = Inr sample_profile
   \<and> normalizeParsed (profile_json sample_profile) [] = Inr sample_profile"
  using C6_normalize_idempotent [where x = sample_raw and t = "[]"] sample_normalized by simp

text \<open>
  Claim C10. In a profile that \<^verbatim>\<open>normalizeParsed\<close> returns, every element of \<^verbatim>\<open>skills\<close>,
  \<^verbatim>\<open>certifications\<close>, \<^verbatim>\<open>languages\<close> and \<^verbatim>\<open>links\<close>, and of the \<^verbatim>\<open>responsibilities\<close> of
  every experience entry, is a non-empty string without leading or trailing whitespace;
  so \<^verbatim>\<open>skills\<close> is never a non-empty array of blank strings.
\<close>

theorem C10_list_entries_trimmed:
  assumes "normalizeParsed x t = Inr p"
  shows "(\<forall>s \<in> set (skills p) \<union> set (certifications p) \<union> set (languages p) \<union> set (links p).
            trimmed s)
       \<and> (\<forall>e \<in> set (experience p). \<forall>s \<in> set (responsibilities e). trimmed s)
       \<and> \<not> (skills p \<noteq> [] \<and> list_all (\<lambda>s. trim s = []) (skills p))"
proof (intro conjI)
  show "\<forall>s \<in> set (skills p) \<union> set (certifications p) \<union> set (languages p) \<union> set (links p).
          trimmed s"
    using normalizeParsed_parts(1-4) [OF assms] normalizeSkills_trimmed by blast
  show "\<forall>e \<in> set (experience p). \<forall>s \<in> set (responsibilities e). trimmed s"
    using normalizeParsed_parts(5) [OF assms] normalizeExperience_trimmed by blast
  show "\<not> (skills p \<noteq> [] \<and> list_all (\<lambda>s. trim s = []) (skills p))"
  proof
    assume a: "skills p \<noteq> [] \<and> list_all (\<lambda>s. trim s = []) (skills p)"
    then obtain s where s: "s \<in> set (skills p)" by (cases "skills p") auto
    with a have "trim s = []" by (simp add: list_all_iff)
    moreover have "trimmed s"
      using normalizeParsed_parts(1) [OF assms] normalizeSkills_trimmed s by blast
    ultimately show False by (simp add: trimmed_not_blank)
  qed
qed

theorem C10_witness:
  "normalizeParsed sample_raw [] = Inr sample_profile
   \<and> trimmed (str ''Go'') \<and> trimmed (str ''7'')
   \<and> trimmed (str ''a.example'') \<and> trimmed (str ''b.example'')
   \<and> trimmed (str ''build'') \<and> trimmed (str ''test'')
   \<and> \<not> (skills sample_profile \<noteq> [] \<and> list_all (\<lambda>s. trim s = []) (skills sample_profile))"
  using C10_list_entries_trimmed [OF sample_normalized] sample_normalized
  by (simp add: sample_profile_def)

section \<open>Claims about the heuristic profile builder\<close>

text \<open>
  Claim C9. On the text \<^verbatim>\<open>Java, Java, python AND the SQL\<close>, \<^verbatim>\<open>heuristicParsed\<close> returns
  a profile whose skills are \<^verbatim>\<open>Java\<close> (once), \<^verbatim>\<open>python\<close> and \<^verbatim>\<open>SQL\<close>, without the stop
  words \<^verbatim>\<open>AND\<close> and \<^verbatim>\<open>the\<close>, and whose summary is the fixed marker of the heuristic
  origin.
\<close>

theorem C9_heuristic_example:
  "heuristicParsed (str ''Java, Java, python AND the SQL'') =
     Inr \<lparr>skills = [str ''Java'', str ''python'', str ''SQL''],
          contact = \<lparr>name = JNull, email = JNull, phone = JNull, location = JNull\<rparr>,
          summary = JStr (str ''Parsed resume text without AI (heuristic fallback)''),
          experience = [], education = [], certifications = [], languages = [], links = []\<rparr>"
  by code_simp

section \<open>Claims about the text extractor\<close>

lemma trim_replicate: "\<not> is_ws c \<Longrightarrow> trim (replicate n c) = replicate n c"
  by (simp add: trim_def)

lemma docx_file_ext: "file_ext docx_libs docx_file = Inr (str ''.docx'')"
  by (simp add: file_ext_def extname_arg_def js_or_def docx_libs_def docx_file_def
      simple_extname_def toLowerCase_def str_def)

text \<open>
  The cap in the three branches that apply it: the text such a branch returns is
  \<^verbatim>\<open>slice(0, maxChars)\<close> of the text its decoder read, a prefix of it of at most
  \<^verbatim>\<open>maxChars\<close> characters. The DOC/DOCX branch returns the text of its decoder as it is.
\<close>

lemma slice0_prefix: "\<exists>r. s = slice0 s n @ r"
  by (metis append_take_drop_id slice0_def)

lemma slice0_length: "0 \<le> n \<Longrightarrow> int (length (slice0 s n)) \<le> n"
  by (simp add: slice0_def)

lemma branch_pdfjs_capped:
  "branch_pdfjs L ext file n = Some t \<Longrightarrow>
     \<exists>lib text. pdfjsLib L = Some lib \<and> read_pdfjs lib file = Inr text \<and> t = slice0 text n"
  by (auto simp: branch_pdfjs_def catch_log_def try_pdfjs_def
      split: option.splits sum.splits if_splits)

lemma branch_pdfParse_capped:
  "branch_pdfParse L ext file n = Some t \<Longrightarrow>
     \<exists>lib text. pdfParse L = Some lib \<and> read_lib lib file = Inr text \<and> t = slice0 text n"
  by (auto simp: branch_pdfParse_def catch_log_def try_pdfParse_def
      split: option.splits sum.splits if_splits)

lemma branch_utf8_capped:
  "branch_utf8 L file n = Some t \<Longrightarrow>
     \<exists>text. read_utf8 (toString_utf8 L) file = Inr text \<and> t = slice0 text n"
  by (auto simp: branch_utf8_def catch_log_def try_utf8_def
      split: option.splits sum.splits if_splits)

lemma branch_mammoth_uncapped:
  "branch_mammoth L ext file = Some t \<Longrightarrow>
     \<exists>lib. mammoth L = Some lib \<and> read_lib lib file = Inr t"
  by (auto simp: branch_mammoth_def catch_log_def try_mammoth_def
      split: option.splits sum.splits if_splits)

text \<open>
  Claim C2, at the DOCX upload above: the DOC/DOCX branch returns \<^verbatim>\<open>result.value\<close> as it
  is, so the extractor called with the default cap of 60,000 returns all 60,001
  characters.
\<close>

theorem C2_docx_not_capped:
  "extractResumeText docx_libs docx_file 60000 = Inr docx_text \<and> length docx_text = 60001"
proof -
  have "trim docx_text = docx_text"
    unfolding docx_text_def by (rule trim_replicate) (simp add: is_ws_def)
  moreover have "docx_text \<noteq> []" by (simp add: docx_text_def)
  ultimately have "try_mammoth docx_convert docx_file = Inr (Some docx_text)"
    by (simp add: try_mammoth_def read_lib_def file_buffer_def docx_file_def docx_convert_def)
  moreover have "mammoth docx_libs = Some docx_convert" by (simp add: docx_libs_def)
  ultimately have "branch_mammoth docx_libs (str ''.docx'') docx_file = Some docx_text"
    by (simp add: branch_mammoth_def catch_log_def)
  moreover have "branch_pdfjs docx_libs (str ''.docx'') docx_file 60000 = None"
    "branch_pdfParse docx_libs (str ''.docx'') docx_file 60000 = None"
    by (simp_all add: branch_pdfjs_def branch_pdfParse_def docx_libs_def)
  ultimately show ?thesis
    by (simp add: extractResumeText_def docx_file_ext) (simp add: docx_text_def)
qed

lemma trim_Nil [simp]: "trim [] = []"
  by (simp add: trim_def)

lemma slice0_nonempty: "0 < n \<Longrightarrow> trim s \<noteq> [] \<Longrightarrow> slice0 s n \<noteq> []"
  by (cases s) (simp_all add: slice0_def)

lemma branch_pdfjs_None:
  "branch_pdfjs L ext file n = None \<longleftrightarrow> list_all blank_or_raised (outputs_pdfjs L ext file)"
  by (auto simp: branch_pdfjs_def outputs_pdfjs_def catch_log_def try_pdfjs_def
      blank_or_raised_def split: option.splits sum.splits)

lemma branch_pdfParse_None:
  "branch_pdfParse L ext file n = None
     \<longleftrightarrow> list_all blank_or_raised (outputs_pdfParse L ext file)"
  by (auto simp: branch_pdfParse_def outputs_pdfParse_def catch_log_def try_pdfParse_def
      blank_or_raised_def split: option.splits sum.splits)

lemma branch_mammoth_None:
  "branch_mammoth L ext file = None \<longleftrightarrow> list_all blank_or_raised (outputs_mammoth L ext file)"
  by (auto simp: branch_mammoth_def outputs_mammoth_def catch_log_def try_mammoth_def
      blank_or_raised_def split: option.splits sum.splits)

lemma branch_utf8_None:
  "branch_utf8 L file n = None \<longleftrightarrow> blank_or_raised (read_utf8 (toString_utf8 L) file)"
  by (auto simp: branch_utf8_def catch_log_def try_utf8_def
      blank_or_raised_def split: option.splits sum.splits)

lemma branch_pdfjs_Some: "0 < n \<Longrightarrow> branch_pdfjs L ext file n = Some t \<Longrightarrow> t \<noteq> []"
  by (auto simp: branch_pdfjs_def catch_log_def try_pdfjs_def slice0_nonempty
      split: option.splits sum.splits if_splits)

lemma branch_pdfParse_Some: "0 < n \<Longrightarrow> branch_pdfParse L ext file n = Some t \<Longrightarrow> t \<noteq> []"
  by (auto simp: branch_pdfParse_def catch_log_def try_pdfParse_def slice0_nonempty
      split: option.splits sum.splits if_splits)

lemma branch_mammoth_Some: "branch_mammoth L ext file = Some t \<Longrightarrow> t \<noteq> []"
  by (auto simp: branch_mammoth_def catch_log_def try_mammoth_def
      split: option.splits sum.splits if_splits)

lemma branch_utf8_Some: "0 < n \<Longrightarrow> branch_utf8 L file n = Some t \<Longrightarrow> t \<noteq> []"
  by (auto simp: branch_utf8_def catch_log_def try_utf8_def slice0_nonempty
      split: option.splits sum.splits if_splits)

text \<open>
  The extractor raises exactly when the name of the file is a truthy value that is not a
  string: \<^verbatim>\<open>path.extname\<close> is called outside every \<^verbatim>\<open>try\<close>.
\<close>

lemma name_ok_file_ext: "name_ok file \<longleftrightarrow> (\<exists>ext. file_ext L file = Inr ext)"
  by (cases "extname_arg file") (simp_all add: name_ok_def file_ext_def)

lemma extract_returns_iff: "(\<exists>s. extractResumeText L file n = Inr s) \<longleftrightarrow> name_ok file"
proof (cases "file_ext L file")
  case (Inl e)
  with name_ok_file_ext [where L = L] show ?thesis by (simp add: extractResumeText_def)
next
  case (Inr ext)
  with name_ok_file_ext [where L = L] show ?thesis
    by (simp add: extractResumeText_def split: option.splits)
qed

lemma extract_empty_iff:
  assumes "0 < n" and "name_ok file"
  shows "extractResumeText L file n = Inr [] \<longleftrightarrow> list_all blank_or_raised (chain_outputs L file)"
proof -
  from assms(2) obtain ext where ext: "file_ext L file = Inr ext"
    using name_ok_file_ext by blast
  have "extractResumeText L file n = Inr [] \<longleftrightarrow>
        branch_pdfjs L ext file n = None \<and> branch_pdfParse L ext file n = None
        \<and> branch_mammoth L ext file = None \<and> branch_utf8 L file n = None"
    using branch_pdfjs_Some [OF assms(1)] branch_pdfParse_Some [OF assms(1)]
      branch_mammoth_Some branch_utf8_Some [OF assms(1)]
    by (fastforce simp: extractResumeText_def ext split: option.splits)
  thus ?thesis
    by (simp add: chain_outputs_def ext branch_pdfjs_None branch_pdfParse_None
        branch_mammoth_None branch_utf8_None)
qed

text \<open>
  Claim C7, amended. For every file whose name is a string or is missing (or another
  falsy value), also when the file or its buffer is missing, and for every cap,
  \<^verbatim>\<open>extractResumeText\<close> does not raise and returns a string. For such a file and a cap of
  at least 1 it returns the empty string exactly when every decoder of the chain that
  applies to the file raised or read only empty or whitespace text.
\<close>

theorem C7_extract_never_raises:
  "(name_ok file \<longrightarrow> (\<exists>s. extractResumeText L file maxChars = Inr s))
   \<and> (name_ok file \<and> 0 < maxChars \<longrightarrow>
        (extractResumeText L file maxChars = Inr []
           \<longleftrightarrow> list_all blank_or_raised (chain_outputs L file)))"
  using extract_returns_iff extract_empty_iff by blast

lemma name_ok_None: "name_ok None"
  by (simp add: name_ok_def extname_arg_def)

theorem C7_witness:
  "name_ok None \<and> extractResumeText docx_libs None 60000 = Inr []
   \<and> list_all blank_or_raised (chain_outputs docx_libs None)"
proof -
  have "list_all blank_or_raised (chain_outputs docx_libs None)"
    by (simp add: chain_outputs_def file_ext_def extname_arg_def outputs_pdfjs_def
        outputs_pdfParse_def outputs_mammoth_def docx_libs_def read_utf8_def read_lib_def
        file_buffer_def blank_or_raised_def simple_extname_def toLowerCase_def str_def)
  with C7_extract_never_raises [of None docx_libs 60000] name_ok_None show ?thesis by simp
qed

text \<open>
  Claim C7 as stated fails. With a cap of 0 the extractor returns the empty string for the
  text upload above, although the UTF-8 decoding read \<^verbatim>\<open>Java\<close>; and for the upload with
  the number 42 as its name the extractor raises.
\<close>

theorem C7_counterexample:
  "extractResumeText txt_libs txt_file 0 = Inr []
   \<and> read_utf8 (toString_utf8 txt_libs) txt_file = Inr (str ''Java'')
   \<and> \<not> blank_or_raised (read_utf8 (toString_utf8 txt_libs) txt_file)
   \<and> extractResumeText txt_libs numbered_file 60000 = Inl TypeError"
  by (simp add: extractResumeText_def file_ext_def extname_arg_def js_or_def branch_pdfjs_def
      branch_pdfParse_def branch_mammoth_def branch_utf8_def txt_libs_def txt_file_def
      numbered_file_def catch_log_def try_utf8_def read_utf8_def file_buffer_def utf8_ascii_def
      trim_def is_ws_def slice0_def blank_or_raised_def str_def)

section \<open>The keys of a returned profile\<close>





section \<open>Claims about the AI structured parser\<close>

lemma strictCall_calls:
  "strictCall srv msgs calls = (r, calls') \<Longrightarrow> calls' = calls @ [strict_request msgs]"
  by (auto simp: strictCall_def create_def split: option.splits)

lemma repairAiResponse_calls:
  "repairAiResponse srv jp a t calls = (r, calls') \<Longrightarrow> calls' = calls @ [repair_request a]"
  by (auto simp: repairAiResponse_def create_def split: option.splits if_splits)

lemma parse_or_repair_calls:
  "parse_or_repair srv jp a t calls = (r, calls') \<Longrightarrow>
     calls' = calls \<or> calls' = calls @ [repair_request a]"
  by (auto simp: parse_or_repair_def split: option.splits dest: repairAiResponse_calls)

lemma aiParseResume_first_raises:
  assumes "strictCall srv (baseMessages (slice0 text 15000)) calls = (Inl e, c1)"
  shows "aiParseResume srv jp text calls = (Inl e, c1)"
  by (simp add: aiParseResume_def Let_def assms)

lemma aiParseResume_no_retry:
  assumes "strictCall srv (baseMessages (slice0 text 15000)) calls = (Inr a1, c1)"
    and "parse_or_repair srv jp a1 (slice0 text 15000) c1 = (p1, c2)"
    and "\<not> needsRetry p1"
  shows "\<exists>p. p1 = Some p \<and> aiParseResume srv jp text calls = (Inr p, c2)"
proof -
  from assms(3) obtain p where p: "p1 = Some p" by (cases p1) (auto simp: needsRetry_def)
  with assms show ?thesis by (simp add: aiParseResume_def Let_def)
qed

lemma aiParseResume_retry_raises:
  assumes "strictCall srv (baseMessages (slice0 text 15000)) calls = (Inr a1, c1)"
    and "parse_or_repair srv jp a1 (slice0 text 15000) c1 = (p1, c2)"
    and "needsRetry p1"
    and "strictCall srv (retryMessages (slice0 text 15000)) c2 = (Inl e, c3)"
  shows "aiParseResume srv jp text calls = (Inl e, c3)"
  using assms by (simp add: aiParseResume_def Let_def)

lemma aiParseResume_retry:
  assumes "strictCall srv (baseMessages (slice0 text 15000)) calls = (Inr a1, c1)"
    and "parse_or_repair srv jp a1 (slice0 text 15000) c1 = (p1, c2)"
    and "needsRetry p1"
    and "strictCall srv (retryMessages (slice0 text 15000)) c2 = (Inr a2, c3)"
    and "parse_or_repair srv jp a2 (slice0 text 15000) c3 = (p2, c4)"
  shows "aiParseResume srv jp text calls =
           (case p2 of None \<Rightarrow> Inl AIParseFailed | Some p \<Rightarrow> Inr p, c4)"
  using assms by (cases p2) (simp_all add: aiParseResume_def Let_def)

text \<open>The four ways a run of the parser can go, with the calls each one makes.\<close>

lemma aiParseResume_runs:
  shows
    "(\<exists>e. aiParseResume srv jp rt calls = (Inl e, calls @ [base_call rt]) \<and> e \<noteq> AIParseFailed)
     \<or> (\<exists>a1 p c2. strictCall srv (baseMessages (slice0 rt 15000)) calls = (Inr a1, calls @ [base_call rt])
           \<and> parse_or_repair srv jp a1 (slice0 rt 15000) (calls @ [base_call rt]) = (Some p, c2)
           \<and> \<not> needsRetry (Some p) \<and> aiParseResume srv jp rt calls = (Inr p, c2)
           \<and> (c2 = calls @ [base_call rt]
                \<or> c2 = calls @ [base_call rt, repair_request a1]))
     \<or> (\<exists>a1 p1 c2 e. strictCall srv (baseMessages (slice0 rt 15000)) calls = (Inr a1, calls @ [base_call rt])
           \<and> parse_or_repair srv jp a1 (slice0 rt 15000) (calls @ [base_call rt]) = (p1, c2)
           \<and> needsRetry p1 \<and> e \<noteq> AIParseFailed
           \<and> strictCall srv (retryMessages (slice0 rt 15000)) c2 = (Inl e, c2 @ [retry_call rt])
           \<and> aiParseResume srv jp rt calls = (Inl e, c2 @ [retry_call rt])
           \<and> (c2 = calls @ [base_call rt]
                \<or> c2 = calls @ [base_call rt, repair_request a1]))
     \<or> (\<exists>a1 p1 c2 a2 p2 c4.
             strictCall srv (baseMessages (slice0 rt 15000)) calls = (Inr a1, calls @ [base_call rt])
           \<and> parse_or_repair srv jp a1 (slice0 rt 15000) (calls @ [base_call rt]) = (p1, c2)
           \<and> needsRetry p1
           \<and> strictCall srv (retryMessages (slice0 rt 15000)) c2 = (Inr a2, c2 @ [retry_call rt])
           \<and> parse_or_repair srv jp a2 (slice0 rt 15000) (c2 @ [retry_call rt]) = (p2, c4)
           \<and> aiParseResume srv jp rt calls = (case p2 of None \<Rightarrow> Inl AIParseFailed | Some p \<Rightarrow> Inr p, c4)
           \<and> (c2 = calls @ [base_call rt]
                \<or> c2 = calls @ [base_call rt, repair_request a1])
           \<and> (c4 = c2 @ [retry_call rt] \<or> c4 = c2 @ [retry_call rt, repair_request a2]))"
proof -
  obtain r1 c1 where s1: "strictCall srv (baseMessages (slice0 rt 15000)) calls = (r1, c1)" by fastforce
  from strictCall_calls [OF s1] have c1: "c1 = calls @ [base_call rt]"
    by (simp add: base_call_def)
  show ?thesis
  proof (cases r1)
    case (Inl e)
    from s1 Inl have "e \<noteq> AIParseFailed"
      by (auto simp: strictCall_def create_def split: option.splits)
    with aiParseResume_first_raises [of srv rt calls e c1 jp] s1 Inl c1 show ?thesis
      by simp
  next
    case (Inr a1)
    obtain p1 c2 where pr1: "parse_or_repair srv jp a1 (slice0 rt 15000) c1 = (p1, c2)" by fastforce
    from parse_or_repair_calls [OF pr1] c1
    have c2: "c2 = calls @ [base_call rt] \<or> c2 = calls @ [base_call rt, repair_request a1]"
      by auto
    show ?thesis
    proof (cases "needsRetry p1")
      case False
      from aiParseResume_no_retry [of srv rt calls a1 c1 jp p1 c2] s1 Inr pr1 False
      obtain p where "p1 = Some p" "aiParseResume srv jp rt calls = (Inr p, c2)" by auto
      with s1 Inr pr1 False c1 c2 show ?thesis by blast
    next
      case True
      obtain r3 c3 where s3: "strictCall srv (retryMessages (slice0 rt 15000)) c2 = (r3, c3)" by fastforce
      from strictCall_calls [OF s3] have c3: "c3 = c2 @ [retry_call rt]"
        by (simp add: retry_call_def)
      show ?thesis
      proof (cases r3)
        case (Inl e)
        from s3 Inl have "e \<noteq> AIParseFailed"
          by (auto simp: strictCall_def create_def split: option.splits)
        moreover from aiParseResume_retry_raises [of srv rt calls a1 c1 jp p1 c2 e c3]
          s1 Inr pr1 True s3 Inl
        have "aiParseResume srv jp rt calls = (Inl e, c3)" by simp
        ultimately show ?thesis using s1 Inr pr1 True s3 Inl c1 c2 c3 by blast
      next
        case (Inr a2)
        obtain p2 c4 where pr2: "parse_or_repair srv jp a2 (slice0 rt 15000) c3 = (p2, c4)" by fastforce
        from parse_or_repair_calls [OF pr2] c3
        have c4: "c4 = c2 @ [retry_call rt] \<or> c4 = c2 @ [retry_call rt, repair_request a2]"
          by auto
        from aiParseResume_retry [of srv rt calls a1 c1 jp p1 c2 a2 c3 p2 c4]
          s1 \<open>r1 = Inr a1\<close> pr1 True s3 Inr pr2
        have "aiParseResume srv jp rt calls = (case p2 of None \<Rightarrow> Inl AIParseFailed | Some p \<Rightarrow> Inr p, c4)"
          by simp
        with s1 \<open>r1 = Inr a1\<close> pr1 True s3 Inr pr2 c1 c2 c3 c4 show ?thesis by blast
      qed
    qed
  qed
qed

lemma call_kinds [simp]:
  "primary_call (base_call rt)" "primary_call (retry_call rt)" "\<not> primary_call (repair_request a)"
  "\<not> repair_call (base_call rt)" "\<not> repair_call (retry_call rt)" "repair_call (repair_request a)"
  by (simp_all add: primary_call_def repair_call_def base_call_def retry_call_def
      strict_request_def repair_request_def)

lemma retry_distinct [simp]:
  "retry_call rt \<noteq> base_call rt" "retry_call rt \<noteq> repair_request a"
  "base_call rt \<noteq> retry_call rt" "repair_request a \<noteq> retry_call rt"
proof -
  have "retry_system \<noteq> base_system"
    by (simp add: base_system_def retry_system_def str_def)
  thus "retry_call rt \<noteq> base_call rt" "base_call rt \<noteq> retry_call rt"
    by (auto simp: retry_call_def base_call_def strict_request_def baseMessages_def
        retryMessages_def)
  show "retry_call rt \<noteq> repair_request a" "repair_request a \<noteq> retry_call rt"
    by (auto simp: retry_call_def strict_request_def repair_request_def)
qed

lemma aiParseResume_calls:
  "\<exists>a1 a2. snd (aiParseResume srv jp rt calls) \<in>
     {calls @ [base_call rt],
      calls @ [base_call rt, repair_request a1],
      calls @ [base_call rt, retry_call rt],
      calls @ [base_call rt, repair_request a1, retry_call rt],
      calls @ [base_call rt, retry_call rt, repair_request a2],
      calls @ [base_call rt, repair_request a1, retry_call rt, repair_request a2]}"
  using aiParseResume_runs [of srv jp rt calls]
  apply (elim disjE exE conjE)
  apply simp_all
  apply blast+
  done

lemma needsRetry_None: "needsRetry None"
  by (simp add: needsRetry_def)

lemma needsRetry_Some:
  "needsRetry (Some p) \<longleftrightarrow>
     (skills p = [] \<or> (\<forall>s \<in> set (skills p). trim s = []))
     \<and> experience p = []
     \<and> \<not> truthy (name (contact p)) \<and> \<not> truthy (email (contact p))
     \<and> \<not> truthy (phone (contact p))"
  by (simp add: needsRetry_def list_all_iff)

text \<open>
  \<^verbatim>\<open>parseAiResponseToJson\<close> returns \<^verbatim>\<open>null\<close> when \<^verbatim>\<open>JSON.parse\<close> raises and when the
  normalization of the parsed value raises: both are inside its \<^verbatim>\<open>try\<close>.
\<close>

lemma parseAiResponseToJson_None:
  "parseAiResponseToJson jp a t = None \<longleftrightarrow>
     jp a = None \<or> (\<exists>v e. jp a = Some v \<and> normalizeParsed v t = Inl e)"
  by (auto simp: parseAiResponseToJson_def split: option.splits sum.splits)

lemma retry_issued_iff:
  assumes s1: "strictCall srv (baseMessages (slice0 rt 15000)) calls = (Inr a1, c1)"
    and pr1: "parse_or_repair srv jp a1 (slice0 rt 15000) c1 = (p1, c2)"
  shows "retry_call rt \<in> set (new_calls srv jp rt calls) \<longleftrightarrow> needsRetry p1"
proof -
  from strictCall_calls [OF s1] have c1: "c1 = calls @ [base_call rt]"
    by (simp add: base_call_def)
  from parse_or_repair_calls [OF pr1] c1
  have c2: "c2 = calls @ [base_call rt] \<or> c2 = calls @ [base_call rt, repair_request a1]"
    by auto
  show ?thesis
  proof (cases "needsRetry p1")
    case False
    from aiParseResume_no_retry [OF s1 pr1 False] have "snd (aiParseResume srv jp rt calls) = c2"
      by auto
    with c2 False show ?thesis by (auto simp: new_calls_def)
  next
    case True
    obtain r3 c3 where s3: "strictCall srv (retryMessages (slice0 rt 15000)) c2 = (r3, c3)"
      by fastforce
    from strictCall_calls [OF s3] have c3: "c3 = c2 @ [retry_call rt]"
      by (simp add: retry_call_def)
    have "\<exists>more. snd (aiParseResume srv jp rt calls) = c3 @ more"
    proof (cases r3)
      case (Inl e)
      with aiParseResume_retry_raises [OF s1 pr1 True] s3 show ?thesis by simp
    next
      case (Inr a2)
      obtain p2 c4 where pr2: "parse_or_repair srv jp a2 (slice0 rt 15000) c3 = (p2, c4)"
        by fastforce
      from aiParseResume_retry [OF s1 pr1 True _ pr2] s3 Inr
      have "snd (aiParseResume srv jp rt calls) = c4" by simp
      with parse_or_repair_calls [OF pr2] show ?thesis by auto
    qed
    with c2 c3 True show ?thesis by (auto simp: new_calls_def)
  qed
qed

lemma slice0_hello: "slice0 (str ''hello'') 15000 = str ''hello''"
  by (simp add: slice0_def str_def)

lemma hello_first_call:
  "strictCall empty_then_prose (baseMessages (slice0 (str ''hello'') 15000)) [] =
     (Inr (str ''{}''), [base_call (str ''hello'')])"
  by (simp add: strictCall_def create_def empty_then_prose_def first_content_def base_call_def)

lemma normalize_braces: "normalizeParsed (JObj []) (str ''hello'') = Inr blank_profile"
  by code_simp

lemma hello_first_parse:
  "parse_or_repair empty_then_prose braces_only (str ''{}'') (slice0 (str ''hello'') 15000)
     [base_call (str ''hello'')] = (Some blank_profile, [base_call (str ''hello'')])"
  by (simp add: parse_or_repair_def parseAiResponseToJson_def braces_only_def slice0_hello
      normalize_braces)

lemma blank_needsRetry: "needsRetry (Some blank_profile)"
  by (simp add: needsRetry_def blank_profile_def)

lemma hello_second_call:
  "strictCall empty_then_prose (retryMessages (slice0 (str ''hello'') 15000))
     [base_call (str ''hello'')] =
     (Inr (str ''Sorry, I cannot.''), [base_call (str ''hello''), retry_call (str ''hello'')])"
  by (simp add: strictCall_def create_def empty_then_prose_def first_content_def retry_call_def)

lemma prose_not_json: "braces_only (str ''Sorry, I cannot.'') = None"
  by (simp add: braces_only_def str_def)

lemma hello_second_parse:
  "parseAiResponseToJson braces_only (str ''Sorry, I cannot.'') (slice0 (str ''hello'') 15000)
     = None"
  by (simp add: parseAiResponseToJson_def prose_not_json)

lemma hello_second_repair:
  "fst (repairAiResponse empty_then_prose braces_only (str ''Sorry, I cannot.'')
          (slice0 (str ''hello'') 15000)
          [base_call (str ''hello''), retry_call (str ''hello'')]) = None"
  by (simp add: repairAiResponse_def create_def empty_then_prose_def first_content_def
      parseAiResponseToJson_def prose_not_json)

lemma hello_second_attempt:
  "parse_or_repair empty_then_prose braces_only (str ''Sorry, I cannot.'')
     (slice0 (str ''hello'') 15000)
     [base_call (str ''hello''), retry_call (str ''hello'')] =
   (None, [base_call (str ''hello''), retry_call (str ''hello''),
           repair_request (str ''Sorry, I cannot.'')])"
proof -
  obtain r c where rc: "repairAiResponse empty_then_prose braces_only (str ''Sorry, I cannot.'')
     (slice0 (str ''hello'') 15000)
     [base_call (str ''hello''), retry_call (str ''hello'')] = (r, c)" by fastforce
  from hello_second_repair rc have "r = None" by simp
  moreover from repairAiResponse_calls [OF rc]
  have "c = [base_call (str ''hello''), retry_call (str ''hello''),
             repair_request (str ''Sorry, I cannot.'')]" by simp
  ultimately show ?thesis by (simp add: parse_or_repair_def hello_second_parse rc)
qed

lemma hello_run:
  "aiParseResume empty_then_prose braces_only (str ''hello'') [] =
     (Inl AIParseFailed,
      [base_call (str ''hello''), retry_call (str ''hello''),
       repair_request (str ''Sorry, I cannot.'')])"
  using aiParseResume_retry [OF hello_first_call hello_first_parse blank_needsRetry
      hello_second_call hello_second_attempt]
  by simp

lemma retry_not_issued:
  assumes "strictCall srv (baseMessages (slice0 rt 15000)) calls = (Inl e, c1)"
  shows "new_calls srv jp rt calls = [base_call rt]"
  using aiParseResume_first_raises [OF assms, of jp] strictCall_calls [OF assms]
  by (simp add: new_calls_def base_call_def)

text \<open>
  Claim C3, amended. The parser issues the request of the second, stricter attempt exactly
  when the first completion call returns and the first attempt, after its repair, has
  yielded no profile or a profile whose skills are empty or all blank, whose experience is
  empty and whose contact has no name, email or phone. No profile means that
  \<^verbatim>\<open>parseAiResponseToJson\<close> and \<^verbatim>\<open>repairAiResponse\<close> both returned \<^verbatim>\<open>null\<close>: the reply did
  not parse as JSON or the normalization of the parsed value raised, and the same holds
  of the reply of the repair, if the repair call returned one at all. The fields
  \<^verbatim>\<open>education\<close>, \<^verbatim>\<open>certifications\<close>, \<^verbatim>\<open>languages\<close> and \<^verbatim>\<open>links\<close> do not enter the
  decision.
\<close>

theorem C3_retry_condition:
  "(retry_call rt \<in> set (new_calls srv jp rt calls) \<longleftrightarrow>
      (\<exists>a1 c1 p1 c2.
          strictCall srv (baseMessages (slice0 rt 15000)) calls = (Inr a1, c1)
        \<and> parse_or_repair srv jp a1 (slice0 rt 15000) c1 = (p1, c2)
        \<and> (p1 = None \<or> (\<exists>p. p1 = Some p
              \<and> (skills p = [] \<or> (\<forall>s \<in> set (skills p). trim s = []))
              \<and> experience p = []
              \<and> \<not> truthy (name (contact p)) \<and> \<not> truthy (email (contact p))
              \<and> \<not> truthy (phone (contact p))))))
   \<and> (\<forall>a1 c1 p1 c2. parse_or_repair srv jp a1 (slice0 rt 15000) c1 = (p1, c2) \<longrightarrow>
         (p1 = None
            \<longleftrightarrow> parseAiResponseToJson jp a1 (slice0 rt 15000) = None
                \<and> fst (repairAiResponse srv jp a1 (slice0 rt 15000) c1) = None))
   \<and> (\<forall>a t. parseAiResponseToJson jp a t = None
          \<longleftrightarrow> jp a = None \<or> (\<exists>v e. jp a = Some v \<and> normalizeParsed v t = Inl e))
   \<and> (\<forall>p e c l k. needsRetry (Some (p\<lparr>education := e, certifications := c,
                                        languages := l, links := k\<rparr>))
                     = needsRetry (Some p))"
proof (intro conjI)
  have nr: "needsRetry p1 \<longleftrightarrow> p1 = None \<or> (\<exists>p. p1 = Some p
                  \<and> (skills p = [] \<or> (\<forall>s \<in> set (skills p). trim s = []))
                  \<and> experience p = []
                  \<and> \<not> truthy (name (contact p)) \<and> \<not> truthy (email (contact p))
                  \<and> \<not> truthy (phone (contact p)))" for p1
    by (cases p1) (simp_all add: needsRetry_None needsRetry_Some)
  show "retry_call rt \<in> set (new_calls srv jp rt calls) \<longleftrightarrow>
      (\<exists>a1 c1 p1 c2.
          strictCall srv (baseMessages (slice0 rt 15000)) calls = (Inr a1, c1)
        \<and> parse_or_repair srv jp a1 (slice0 rt 15000) c1 = (p1, c2)
        \<and> (p1 = None \<or> (\<exists>p. p1 = Some p
              \<and> (skills p = [] \<or> (\<forall>s \<in> set (skills p). trim s = []))
              \<and> experience p = []
              \<and> \<not> truthy (name (contact p)) \<and> \<not> truthy (email (contact p))
              \<and> \<not> truthy (phone (contact p)))))"
    (is "?issued \<longleftrightarrow> ?cond")
  proof
    assume issued: ?issued
    obtain r1 c1 where s1: "strictCall srv (baseMessages (slice0 rt 15000)) calls = (r1, c1)"
      by fastforce
    show ?cond
    proof (cases r1)
      case (Inl e)
      with s1 retry_not_issued [of srv rt calls e c1 jp] issued show ?thesis by simp
    next
      case (Inr a1)
      obtain p1 c2 where pr1: "parse_or_repair srv jp a1 (slice0 rt 15000) c1 = (p1, c2)"
        by fastforce
      from s1 Inr have s1': "strictCall srv (baseMessages (slice0 rt 15000)) calls = (Inr a1, c1)"
        by simp
      from retry_issued_iff [OF s1' pr1] issued have "needsRetry p1" by simp
      with nr [of p1] s1' pr1 show ?thesis by blast
    qed
  next
    assume ?cond
    then obtain a1 c1 p1 c2 where
      s1: "strictCall srv (baseMessages (slice0 rt 15000)) calls = (Inr a1, c1)"
      and pr1: "parse_or_repair srv jp a1 (slice0 rt 15000) c1 = (p1, c2)"
      and c: "p1 = None \<or> (\<exists>p. p1 = Some p
              \<and> (skills p = [] \<or> (\<forall>s \<in> set (skills p). trim s = []))
              \<and> experience p = []
              \<and> \<not> truthy (name (contact p)) \<and> \<not> truthy (email (contact p))
              \<and> \<not> truthy (phone (contact p)))"
      by blast
    from c nr [of p1] have "needsRetry p1" by simp
    with retry_issued_iff [OF s1 pr1] show ?issued by simp
  qed
  show "\<forall>a1 c1 p1 c2. parse_or_repair srv jp a1 (slice0 rt 15000) c1 = (p1, c2) \<longrightarrow>
         (p1 = None
            \<longleftrightarrow> parseAiResponseToJson jp a1 (slice0 rt 15000) = None
                \<and> fst (repairAiResponse srv jp a1 (slice0 rt 15000) c1) = None)"
    by (auto simp: parse_or_repair_def split: option.splits)
  show "\<forall>a t. parseAiResponseToJson jp a t = None
          \<longleftrightarrow> jp a = None \<or> (\<exists>v e. jp a = Some v \<and> normalizeParsed v t = Inl e)"
    by (simp add: parseAiResponseToJson_None)
  show "\<forall>p e c l k. needsRetry (Some (p\<lparr>education := e, certifications := c,
                                        languages := l, links := k\<rparr>))
                     = needsRetry (Some p)"
    by (simp add: needsRetry_def)
qed

theorem C3_witness:
  "strictCall empty_then_prose (baseMessages (slice0 (str ''hello'') 15000)) [] =
     (Inr (str ''{}''), [base_call (str ''hello'')])
   \<and> parse_or_repair empty_then_prose braces_only (str ''{}'') (slice0 (str ''hello'') 15000)
       [base_call (str ''hello'')] = (Some blank_profile, [base_call (str ''hello'')])
   \<and> skills blank_profile = [] \<and> experience blank_profile = []
   \<and> \<not> truthy (name (contact blank_profile)) \<and> \<not> truthy (email (contact blank_profile))
   \<and> \<not> truthy (phone (contact blank_profile))
   \<and> retry_call (str ''hello'')
       \<in> set (new_calls empty_then_prose braces_only (str ''hello'') [])"
proof -
  have b: "skills blank_profile = []" "experience blank_profile = []"
    "\<not> truthy (name (contact blank_profile))" "\<not> truthy (email (contact blank_profile))"
    "\<not> truthy (phone (contact blank_profile))"
    by (simp_all add: blank_profile_def)
  have "\<exists>a1 c1 p1 c2.
          strictCall empty_then_prose (baseMessages (slice0 (str ''hello'') 15000)) [] = (Inr a1, c1)
        \<and> parse_or_repair empty_then_prose braces_only a1 (slice0 (str ''hello'') 15000) c1 = (p1, c2)
        \<and> (p1 = None \<or> (\<exists>p. p1 = Some p
              \<and> (skills p = [] \<or> (\<forall>s \<in> set (skills p). trim s = []))
              \<and> experience p = []
              \<and> \<not> truthy (name (contact p)) \<and> \<not> truthy (email (contact p))
              \<and> \<not> truthy (phone (contact p))))"
    using hello_first_call hello_first_parse b by blast
  with C3_retry_condition [of "str ''hello''" empty_then_prose braces_only "[]"]
  have "retry_call (str ''hello'')
       \<in> set (new_calls empty_then_prose braces_only (str ''hello'') [])"
    by (simp only:)
  with hello_first_call hello_first_parse b show ?thesis by simp
qed

text \<open>
  Claim C3 as stated fails in both directions. When every reply is
  \<^verbatim>\<open>{"name":"Ann","skills":[{"toString":1}]}\<close>, the first reply parses as JSON, its
  normalization raises, so that there is no normalized profile, empty or not, and the
  second attempt is issued. When the first completion call raises, nothing has parsed
  as JSON and no second attempt is issued.
\<close>

theorem C3_counterexample:
  "strictCall always_ann (baseMessages (slice0 (str ''hello'') 15000)) [] =
     (Inr ann_reply, [base_call (str ''hello'')])
   \<and> ann_parser ann_reply = Some ann_raw
   \<and> normalizeParsed ann_raw (slice0 (str ''hello'') 15000) = Inl TypeError
   \<and> retry_call (str ''hello'') \<in> set (new_calls always_ann ann_parser (str ''hello'') [])
   \<and> strictCall never_answers (baseMessages (slice0 (str ''hello'') 15000)) [] =
       (Inl ServiceError, [base_call (str ''hello'')])
   \<and> retry_call (str ''hello'') \<notin> set (new_calls never_answers no_json (str ''hello'') [])"
proof -
  have s1: "strictCall always_ann (baseMessages (slice0 (str ''hello'') 15000)) [] =
     (Inr ann_reply, [base_call (str ''hello'')])"
    by (simp add: strictCall_def create_def always_ann_def first_content_def base_call_def)
  have n: "normalizeParsed ann_raw (slice0 (str ''hello'') 15000) = Inl TypeError"
    by code_simp
  have p: "parseAiResponseToJson ann_parser ann_reply (slice0 (str ''hello'') 15000) = None"
    by (simp add: parseAiResponseToJson_def ann_parser_def n)
  obtain r c where rc: "repairAiResponse always_ann ann_parser ann_reply
      (slice0 (str ''hello'') 15000) [base_call (str ''hello'')] = (r, c)" by fastforce
  have "r = None" using rc p
    by (auto simp: repairAiResponse_def create_def always_ann_def first_content_def
        split: if_splits)
  with rc p have pr1: "parse_or_repair always_ann ann_parser ann_reply
      (slice0 (str ''hello'') 15000) [base_call (str ''hello'')] = (None, c)"
    by (simp add: parse_or_repair_def)
  from retry_issued_iff [OF s1 pr1]
  have i: "retry_call (str ''hello'') \<in> set (new_calls always_ann ann_parser (str ''hello'') [])"
    by (simp add: needsRetry_None)
  have s2: "strictCall never_answers (baseMessages (slice0 (str ''hello'') 15000)) [] =
       (Inl ServiceError, [base_call (str ''hello'')])"
    by (simp add: strictCall_def create_def never_answers_def base_call_def)
  from retry_not_issued [OF s2, of no_json]
  have "retry_call (str ''hello'') \<notin> set (new_calls never_answers no_json (str ''hello'') [])"
    by simp
  with s1 n i s2 show ?thesis by (simp add: ann_parser_def)
qed

text \<open>
  Claim C4, amended. The parser raises its AI-parse failure exactly when both primary
  calls return, the first attempt (after its repair) has yielded no profile or an empty
  one, and neither the reply of the second attempt nor the reply of its repair yields a
  profile; a reply of the second attempt that parses and normalizes is returned as the
  result, also when the profile is empty.
\<close>

theorem C4_failure_condition:
  "(fst (aiParseResume srv jp rt calls) = Inl AIParseFailed \<longleftrightarrow>
      (\<exists>a1 c1 p1 c2 a2 c3.
          strictCall srv (baseMessages (slice0 rt 15000)) calls = (Inr a1, c1)
        \<and> parse_or_repair srv jp a1 (slice0 rt 15000) c1 = (p1, c2)
        \<and> needsRetry p1
        \<and> strictCall srv (retryMessages (slice0 rt 15000)) c2 = (Inr a2, c3)
        \<and> parseAiResponseToJson jp a2 (slice0 rt 15000) = None
        \<and> fst (repairAiResponse srv jp a2 (slice0 rt 15000) c3) = None))
   \<and> (\<forall>a1 c1 p1 c2 a2 c3 p2.
          strictCall srv (baseMessages (slice0 rt 15000)) calls = (Inr a1, c1)
        \<and> parse_or_repair srv jp a1 (slice0 rt 15000) c1 = (p1, c2)
        \<and> needsRetry p1
        \<and> strictCall srv (retryMessages (slice0 rt 15000)) c2 = (Inr a2, c3)
        \<and> parseAiResponseToJson jp a2 (slice0 rt 15000) = Some p2
        \<longrightarrow> aiParseResume srv jp rt calls = (Inr p2, c3))"
proof (intro conjI allI impI iffI)
  assume f: "fst (aiParseResume srv jp rt calls) = Inl AIParseFailed"
  from aiParseResume_runs [of srv jp rt calls] f
  obtain a1 p1 c2 a2 p2 c4 where
    r: "strictCall srv (baseMessages (slice0 rt 15000)) calls = (Inr a1, calls @ [base_call rt])"
      "parse_or_repair srv jp a1 (slice0 rt 15000) (calls @ [base_call rt]) = (p1, c2)"
      "needsRetry p1"
      "strictCall srv (retryMessages (slice0 rt 15000)) c2 = (Inr a2, c2 @ [retry_call rt])"
      "parse_or_repair srv jp a2 (slice0 rt 15000) (c2 @ [retry_call rt]) = (p2, c4)"
      "aiParseResume srv jp rt calls = (case p2 of None \<Rightarrow> Inl AIParseFailed | Some p \<Rightarrow> Inr p, c4)"
    by (elim disjE exE conjE) simp_all
  from r(6) f have "p2 = None" by (cases p2) simp_all
  with r(5) have "parseAiResponseToJson jp a2 (slice0 rt 15000) = None"
    "fst (repairAiResponse srv jp a2 (slice0 rt 15000) (c2 @ [retry_call rt])) = None"
    by (auto simp: parse_or_repair_def split: option.splits)
  with r show "\<exists>a1 c1 p1 c2 a2 c3.
          strictCall srv (baseMessages (slice0 rt 15000)) calls = (Inr a1, c1)
        \<and> parse_or_repair srv jp a1 (slice0 rt 15000) c1 = (p1, c2)
        \<and> needsRetry p1
        \<and> strictCall srv (retryMessages (slice0 rt 15000)) c2 = (Inr a2, c3)
        \<and> parseAiResponseToJson jp a2 (slice0 rt 15000) = None
        \<and> fst (repairAiResponse srv jp a2 (slice0 rt 15000) c3) = None"
    by blast
next
  assume "\<exists>a1 c1 p1 c2 a2 c3.
          strictCall srv (baseMessages (slice0 rt 15000)) calls = (Inr a1, c1)
        \<and> parse_or_repair srv jp a1 (slice0 rt 15000) c1 = (p1, c2)
        \<and> needsRetry p1
        \<and> strictCall srv (retryMessages (slice0 rt 15000)) c2 = (Inr a2, c3)
        \<and> parseAiResponseToJson jp a2 (slice0 rt 15000) = None
        \<and> fst (repairAiResponse srv jp a2 (slice0 rt 15000) c3) = None"
  then obtain a1 c1 p1 c2 a2 c3 where
    s1: "strictCall srv (baseMessages (slice0 rt 15000)) calls = (Inr a1, c1)"
    and pr1: "parse_or_repair srv jp a1 (slice0 rt 15000) c1 = (p1, c2)"
    and n: "needsRetry p1"
    and s3: "strictCall srv (retryMessages (slice0 rt 15000)) c2 = (Inr a2, c3)"
    and p: "parseAiResponseToJson jp a2 (slice0 rt 15000) = None"
    and q: "fst (repairAiResponse srv jp a2 (slice0 rt 15000) c3) = None"
    by blast
  obtain c4 where "parse_or_repair srv jp a2 (slice0 rt 15000) c3 = (None, c4)"
    using p q by (cases "repairAiResponse srv jp a2 (slice0 rt 15000) c3")
      (simp add: parse_or_repair_def)
  from aiParseResume_retry [OF s1 pr1 n s3 this]
  show "fst (aiParseResume srv jp rt calls) = Inl AIParseFailed" by simp
next
  fix a1 c1 p1 c2 a2 c3 p2
  assume a: "strictCall srv (baseMessages (slice0 rt 15000)) calls = (Inr a1, c1)
        \<and> parse_or_repair srv jp a1 (slice0 rt 15000) c1 = (p1, c2)
        \<and> needsRetry p1
        \<and> strictCall srv (retryMessages (slice0 rt 15000)) c2 = (Inr a2, c3)
        \<and> parseAiResponseToJson jp a2 (slice0 rt 15000) = Some p2"
  hence "parse_or_repair srv jp a2 (slice0 rt 15000) c3 = (Some p2, c3)"
    by (simp add: parse_or_repair_def)
  from aiParseResume_retry [OF _ _ _ _ this] a
  show "aiParseResume srv jp rt calls = (Inr p2, c3)" by auto
qed

theorem C4_witness:
  "fst (aiParseResume empty_then_prose braces_only (str ''hello'') []) = Inl AIParseFailed"
proof -
  have "\<exists>a1 c1 p1 c2 a2 c3.
          strictCall empty_then_prose (baseMessages (slice0 (str ''hello'') 15000)) [] = (Inr a1, c1)
        \<and> parse_or_repair empty_then_prose braces_only a1 (slice0 (str ''hello'') 15000) c1 = (p1, c2)
        \<and> needsRetry p1
        \<and> strictCall empty_then_prose (retryMessages (slice0 (str ''hello'') 15000)) c2 = (Inr a2, c3)
        \<and> parseAiResponseToJson braces_only a2 (slice0 (str ''hello'') 15000) = None
        \<and> fst (repairAiResponse empty_then_prose braces_only a2 (slice0 (str ''hello'') 15000) c3) = None"
    by (intro exI conjI)
      (rule hello_first_call, rule hello_first_parse, rule blank_needsRetry,
        rule hello_second_call, rule hello_second_parse, rule hello_second_repair)
  with C4_failure_condition [of empty_then_prose braces_only "str ''hello''" "[]"]
  show ?thesis by (simp only:)
qed

text \<open>
  Claim C4 as stated fails: the reply of the first attempt parses as JSON (to an empty
  profile), the second attempt and its repair are answered with prose, and the parser
  raises its AI-parse failure.
\<close>

theorem C4_counterexample:
  "strictCall empty_then_prose (baseMessages (slice0 (str ''hello'') 15000)) [] =
     (Inr (str ''{}''), [base_call (str ''hello'')])
   \<and> braces_only (str ''{}'') = Some (JObj [])
   \<and> parseAiResponseToJson braces_only (str ''{}'') (slice0 (str ''hello'') 15000)
       = Some blank_profile
   \<and> fst (aiParseResume empty_then_prose braces_only (str ''hello'') []) = Inl AIParseFailed"
proof -
  have "parseAiResponseToJson braces_only (str ''{}'') (slice0 (str ''hello'') 15000)
       = Some blank_profile"
    by (simp add: parseAiResponseToJson_def braces_only_def slice0_hello normalize_braces)
  thus ?thesis
    using hello_first_call hello_run by (simp add: braces_only_def)
qed

text \<open>
  Claim C5. One run of the parser makes at most two primary calls, each followed by at
  most one repair call, so at most four calls: the calls it adds are the first request,
  then possibly the repair of its reply, then possibly the second request, then possibly
  the repair of its reply.
\<close>

theorem C5_call_budget:
  "\<exists>new a1 a2.
     snd (aiParseResume srv jp rt calls) = calls @ new
     \<and> new \<in> {[base_call rt],
              [base_call rt, repair_request a1],
              [base_call rt, retry_call rt],
              [base_call rt, repair_request a1, retry_call rt],
              [base_call rt, retry_call rt, repair_request a2],
              [base_call rt, repair_request a1, retry_call rt, repair_request a2]}
     \<and> length (filter primary_call new) \<le> 2
     \<and> length (filter repair_call new) \<le> length (filter primary_call new)
     \<and> length new \<le> 4
     \<and> \<not> repair_twice new"
proof -
  from aiParseResume_calls [of srv jp rt calls] obtain a1 a2 where
    "snd (aiParseResume srv jp rt calls) \<in>
     {calls @ [base_call rt],
      calls @ [base_call rt, repair_request a1],
      calls @ [base_call rt, retry_call rt],
      calls @ [base_call rt, repair_request a1, retry_call rt],
      calls @ [base_call rt, retry_call rt, repair_request a2],
      calls @ [base_call rt, repair_request a1, retry_call rt, repair_request a2]}"
    by blast
  then consider
      (a) "snd (aiParseResume srv jp rt calls) = calls @ [base_call rt]"
    | (b) "snd (aiParseResume srv jp rt calls) = calls @ [base_call rt, repair_request a1]"
    | (c) "snd (aiParseResume srv jp rt calls) = calls @ [base_call rt, retry_call rt]"
    | (d) "snd (aiParseResume srv jp rt calls) =
             calls @ [base_call rt, repair_request a1, retry_call rt]"
    | (e) "snd (aiParseResume srv jp rt calls) =
             calls @ [base_call rt, retry_call rt, repair_request a2]"
    | (f) "snd (aiParseResume srv jp rt calls) =
             calls @ [base_call rt, repair_request a1, retry_call rt, repair_request a2]"
    by auto
  then show ?thesis
  proof cases
    case a
    show ?thesis
      by (intro exI [of _ "[base_call rt]"] exI [of _ a1] exI [of _ a2]) (simp add: a)
  next
    case b
    show ?thesis
      by (intro exI [of _ "[base_call rt, repair_request a1]"] exI [of _ a1] exI [of _ a2])
        (simp add: b)
  next
    case c
    show ?thesis
      by (intro exI [of _ "[base_call rt, retry_call rt]"] exI [of _ a1] exI [of _ a2])
        (simp add: c)
  next
    case d
    show ?thesis
      by (intro exI [of _ "[base_call rt, repair_request a1, retry_call rt]"] exI [of _ a1]
          exI [of _ a2]) (simp add: d)
  next
    case e
    show ?thesis
      by (intro exI [of _ "[base_call rt, retry_call rt, repair_request a2]"] exI [of _ a1]
          exI [of _ a2]) (simp add: e)
  next
    case f
    show ?thesis
      by (intro exI [of _ "[base_call rt, repair_request a1, retry_call rt, repair_request a2]"]
          exI [of _ a1] exI [of _ a2]) (simp add: f)
  qed
qed

theorem C5_witness:
  "snd (aiParseResume empty_then_prose braces_only (str ''hello'') []) =
     [base_call (str ''hello''), retry_call (str ''hello''),
      repair_request (str ''Sorry, I cannot.'')]
   \<and> length (snd (aiParseResume empty_then_prose braces_only (str ''hello'') [])) \<le> 4"
  using C5_call_budget [of empty_then_prose braces_only "str ''hello''" "[]"] hello_run
  by auto

section \<open>Claims about the upload route\<close>

lemma txt_extract: "extractResumeText txt_libs txt_file 60000 = Inr (str ''Java'')"
  by (simp add: extractResumeText_def file_ext_def extname_arg_def js_or_def branch_pdfjs_def
      branch_pdfParse_def branch_mammoth_def branch_utf8_def txt_libs_def txt_file_def
      catch_log_def try_utf8_def read_utf8_def file_buffer_def utf8_ascii_def trim_def is_ws_def
      slice0_def str_def)

lemma trim_Java: "trim (str ''Java'') \<noteq> []"
  by (simp add: trim_def is_ws_def str_def)

text \<open>
  Claim C1, amended. Without an AI client, an upload with a file name whose extracted
  text is not blank is answered with status 503 and the error \<^verbatim>\<open>AI not configured\<close>, and
  no call is made; the heuristic builder is not used by the route.
\<close>

theorem C1_no_ai_not_configured:
  assumes "file = Some f" and "originalname f = JStr n"
    and "extractResumeText L file 60000 = Inr text" and "trim text \<noteq> []"
  shows "parse_resume_upload L None JSON_parse file calls =
           (Response 503 (ErrorJson ''AI not configured''), calls)"
proof -
  from assms(4) have "text \<noteq> []" by (auto simp: trim_def)
  with assms show ?thesis by (simp add: parse_resume_upload_def)
qed

theorem C1_witness:
  "parse_resume_upload txt_libs None no_json txt_file [] =
     (Response 503 (ErrorJson ''AI not configured''), [])"
  using C1_no_ai_not_configured [OF _ _ txt_extract trim_Java, of _ "str ''cv.txt''"]
  by (simp add: txt_file_def)

text \<open>
  Claim C1 as stated fails: for the text upload above the extracted text is \<^verbatim>\<open>Java\<close>, the
  heuristic builder would return a profile for it, and the route answers with status 503.
\<close>

theorem C1_counterexample:
  "extractResumeText txt_libs txt_file 60000 = Inr (str ''Java'')
   \<and> heuristicParsed (str ''Java'') = Inr java_profile
   \<and> fst (parse_resume_upload txt_libs None no_json txt_file []) =
       Response 503 (ErrorJson ''AI not configured'')
   \<and> fst (parse_resume_upload txt_libs None no_json txt_file []) \<noteq>
       Response 200 (ParsedJson java_profile)"
proof -
  have h: "heuristicParsed (str ''Java'') = Inr java_profile" by code_simp
  have "parse_resume_upload txt_libs None no_json txt_file [] =
          (Response 503 (ErrorJson ''AI not configured''), [])"
    using txt_extract trim_Java
    by (simp add: parse_resume_upload_def txt_file_def) (simp add: str_def)
  with h txt_extract show ?thesis by simp
qed

end
